theory Spec2Isabelle
  imports Complex_Main "HOL-Library.Word"
begin

section \<open>Receipt numbers\<close>

text \<open>
  The date part of \<^verbatim>\<open>datetime.utcnow()\<close> and the 128-bit integer of
  \<^verbatim>\<open>uuid.uuid4()\<close> are inputs of the model: the generator is a pure function
  of them.
\<close>

record datetime =
  year :: nat
  month :: nat
  day :: nat

definition digit_char :: "nat \<Rightarrow> char" where
  "digit_char d = ''0123456789'' ! d"

fun str_nat :: "nat \<Rightarrow> string" where
  "str_nat n = (if n < 10 then [digit_char n] else str_nat (n div 10) @ [digit_char (n mod 10)])"

declare str_nat.simps [simp del]

definition str_int :: "int \<Rightarrow> string" where
  "str_int i = (if i < 0 then CHR ''-'' # str_nat (nat (- i)) else str_nat (nat i))"

definition zero_pad :: "nat \<Rightarrow> string \<Rightarrow> string" where
  "zero_pad w s = replicate (w - length s) (CHR ''0'') @ s"

text \<open>\<^verbatim>\<open>strftime('%Y%m%d')\<close>: the year on four digits, month and day on two.\<close>

definition strftime_Ymd :: "datetime \<Rightarrow> string" where
  "strftime_Ymd t = zero_pad 4 (str_nat (year t)) @ zero_pad 2 (str_nat (month t)) @ zero_pad 2 (str_nat (day t))"

definition hex_char :: "nat \<Rightarrow> char" where
  "hex_char d = ''0123456789abcdef'' ! d"

text \<open>\<^verbatim>\<open>'%032x' % self.int\<close>: the 32 hexadecimal digits, most significant first.\<close>

definition hex32 :: "128 word \<Rightarrow> string" where
  "hex32 w = map (\<lambda>i. hex_char ((unat w div 16 ^ (31 - i)) mod 16)) [0..<32]"

text \<open>\<^verbatim>\<open>str(uuid)\<close>: the digits in groups of 8-4-4-4-12.\<close>

definition uuid_str :: "128 word \<Rightarrow> string" where
  "uuid_str w = (let h = hex32 w in
     take 8 h @ ''-'' @ take 4 (drop 8 h) @ ''-'' @ take 4 (drop 12 h) @ ''-'' @
     take 4 (drop 16 h) @ ''-'' @ drop 20 h)"

definition upper_char :: "char \<Rightarrow> char" where
  "upper_char c =
     (case map_of (zip ''abcdefghijklmnopqrstuvwxyz'' ''ABCDEFGHIJKLMNOPQRSTUVWXYZ'') c of
        Some C \<Rightarrow> C | None \<Rightarrow> c)"

definition generate_receipt_number :: "datetime \<Rightarrow> 128 word \<Rightarrow> string" where
  "generate_receipt_number now u =
     ''RCP-'' @ strftime_Ymd now @ ''-'' @ map upper_char (take 8 (uuid_str u))"

text \<open>The format of the specification, \<^verbatim>\<open>RCP-\d{8}-[A-Z0-9]{8}\<close>, as a predicate.\<close>

definition is_digit :: "char \<Rightarrow> bool" where
  "is_digit c = (c \<in> set ''0123456789'')"

definition is_upper_alnum :: "char \<Rightarrow> bool" where
  "is_upper_alnum c = (c \<in> set ''ABCDEFGHIJKLMNOPQRSTUVWXYZ0123456789'')"

definition matches_receipt_format :: "string \<Rightarrow> bool" where
  "matches_receipt_format s =
     (length s = 21 \<and> take 4 s = ''RCP-'' \<and> list_all is_digit (take 8 (drop 4 s)) \<and>
      take 1 (drop 12 s) = ''-'' \<and> list_all is_upper_alnum (drop 13 s))"

section \<open>Data model\<close>

text \<open>
  The tables that \<^verbatim>\<open>process_sale\<close> reads or writes, with the columns it
  touches. Parts are keyed by their primary key; the other tables are lists in
  insertion order. Amounts (Python floats) are modelled as real numbers; a
  \<^verbatim>\<open>NULL\<close> receipt number is the empty string.
\<close>

record user =
  user_id :: int
  user_name :: string
  role :: string

record part =
  part_name :: string
  stock_quantity :: int

record sale =
  sale_id :: int
  total_amount :: real
  payment_method :: string
  staff_id :: int
  customer_id :: "int option"
  receipt_number :: string
  sale_notes :: string

record sale_detail =
  sd_sale_id :: int
  sd_part_id :: int
  sd_quantity :: int
  price_at_sale :: real

record notification =
  n_user_id :: int
  title :: string
  message :: string
  n_type :: string
  category :: string
  action_url :: "string option"
  action_text :: "string option"

record setting =
  s_category :: string
  setting_key :: string
  setting_value :: string

text \<open>One entry of the request's \<^verbatim>\<open>items\<close> array.\<close>

record cart_item =
  item_id :: int
  quantity :: int
  price :: real

text \<open>
  The dictionary that the sale hands to \<^verbatim>\<open>log_audit\<close> as
  \<^verbatim>\<open>new_values\<close>; the model stores it structured instead of as JSON text.
\<close>

record audit_values =
  av_total_amount :: real
  av_payment_method :: string
  av_customer_id :: "int option"
  av_items :: "cart_item list"

record audit_log =
  a_user_id :: "int option"
  action_type :: string
  table_name :: string
  record_id :: "int option"
  old_values :: "audit_values option"
  new_values :: "audit_values option"
  ip_address :: "string option"
  user_agent :: "string option"

record database =
  parts :: "int \<rightharpoonup> part"
  staff :: "user list"
  customers :: "int list"
  sales :: "sale list"
  sale_details :: "sale_detail list"
  notifications :: "notification list"
  audit_logs :: "audit_log list"
  settings :: "setting list"

text \<open>
  The JSON body of \<^verbatim>\<open>POST /api/sales\<close>, with the keys and types the route
  reads, and the request metadata the audit entry records.
\<close>

record sale_request =
  req_total :: real
  paymentMethod :: string
  req_customer_id :: "int option"
  req_notes :: string
  items :: "cart_item list"
  remote_addr :: "string option"
  user_agent_header :: "string option"

text \<open>
  What the code takes from outside: the clock, the random UUID, the Python
  built-ins \<^verbatim>\<open>int()\<close>, \<^verbatim>\<open>float()\<close> and the \<^verbatim>\<open>.2f\<close> format, and the storage
  failures that can be injected: at the commit of the sale, at the write of a
  single notification, at the write of the audit entry and at the count of
  sales.
\<close>

record environment =
  utcnow :: datetime
  uuid4 :: "128 word"
  py_int :: "string \<Rightarrow> int option"
  py_float :: "string \<Rightarrow> real option"
  format_2f :: "real \<Rightarrow> string"
  commit_fails :: bool
  notification_fails :: "notification \<Rightarrow> bool"
  count_fails :: bool
  audit_fails :: bool

datatype exn = IntegrityError | OperationalError | ValueError

text \<open>The two responses of the route: status 200 with the identifiers, or status 500.\<close>

datatype response = Ok200 int string | Error500 exn

fun status_code :: "response \<Rightarrow> nat" where
  "status_code (Ok200 sid rcp) = 200"
| "status_code (Error500 e) = 500"

section \<open>Storage operations\<close>

text \<open>
  The application refuses to start without a MySQL connection, so the model
  takes the constraints that the table classes declare as enforced by the
  storage: the composite primary key and the part reference of
  \<^verbatim>\<open>sale_details\<close>, the customer reference and the unique receipt number of
  \<^verbatim>\<open>sales\<close>. The session is a working copy of the database: a rollback
  gives back the database of the last commit. Stored procedures and triggers
  that \<^verbatim>\<open>setup_database_objects.py\<close> loads from an SQL file are outside the
  model.
\<close>

text \<open>\<^verbatim>\<open>Settings.query.filter_by(category=c, setting_key=k).first()\<close>\<close>

definition lookup_setting :: "database \<Rightarrow> string \<Rightarrow> string \<Rightarrow> setting option" where
  "lookup_setting db c k = find (\<lambda>s. s_category s = c \<and> setting_key s = k) (settings db)"

text \<open>The identifier the storage assigns to a new sale at flush time.\<close>

definition next_sale_id :: "database \<Rightarrow> int" where
  "next_sale_id db = foldr max (map sale_id (sales db)) 0 + 1"

text \<open>
  \<^verbatim>\<open>db.session.add(new_sale); db.session.flush()\<close>: the insert is refused when
  the customer reference does not resolve or the receipt number is taken.
\<close>

definition flush_sale :: "database \<Rightarrow> sale \<Rightarrow> exn + database" where
  "flush_sale db s =
     (if (case customer_id s of Some c \<Rightarrow> c \<notin> set (customers db) | None \<Rightarrow> False)
         \<or> receipt_number s \<in> set (map receipt_number (sales db))
      then Inl IntegrityError
      else Inr (db\<lparr>sales := sales db @ [s]\<rparr>))"

text \<open>
  The declared constraints of \<^verbatim>\<open>sale_details\<close>: the composite primary key
  \<^verbatim>\<open>(sale_id, part_id)\<close> and the foreign key \<^verbatim>\<open>part_id\<close>.
\<close>

definition sd_key :: "sale_detail \<Rightarrow> int \<times> int" where
  "sd_key d = (sd_sale_id d, sd_part_id d)"

definition sale_details_constraints :: "database \<Rightarrow> bool" where
  "sale_details_constraints db =
     (distinct (map sd_key (sale_details db)) \<and>
      list_all (\<lambda>d. parts db (sd_part_id d) \<noteq> None) (sale_details db))"

text \<open>\<^verbatim>\<open>db.session.commit()\<close> of the sale, its details and the stock updates.\<close>

definition db_commit :: "environment \<Rightarrow> database \<Rightarrow> exn + database" where
  "db_commit env db =
     (if \<not> sale_details_constraints db then Inl IntegrityError
      else if commit_fails env then Inl OperationalError
      else Inr db)"

section \<open>Notifications and audit\<close>

definition create_notification ::
  "environment \<Rightarrow> int \<Rightarrow> string \<Rightarrow> string \<Rightarrow> string \<Rightarrow> string \<Rightarrow> string option \<Rightarrow> string option \<Rightarrow>
   database \<Rightarrow> database \<times> exn option" where
  "create_notification env uid ttl msg ty cat url txt db =
     (let n = \<lparr>n_user_id = uid, title = ttl, message = msg, n_type = ty, category = cat,
                action_url = url, action_text = txt\<rparr>
      in if notification_fails env n then (db, Some OperationalError)
         else (db\<lparr>notifications := notifications db @ [n]\<rparr>, None))"

text \<open>The loop of \<^verbatim>\<open>create_notification_for_role\<close> over the users found.\<close>

fun notify_users ::
  "environment \<Rightarrow> user list \<Rightarrow> string \<Rightarrow> string \<Rightarrow> string \<Rightarrow> string \<Rightarrow> string option \<Rightarrow> string option \<Rightarrow>
   database \<Rightarrow> database \<times> exn option" where
  "notify_users env [] ttl msg ty cat url txt db = (db, None)"
| "notify_users env (u # us) ttl msg ty cat url txt db =
     (case create_notification env (user_id u) ttl msg ty cat url txt db of
        (db', None) \<Rightarrow> notify_users env us ttl msg ty cat url txt db'
      | (db', Some e) \<Rightarrow> (db', Some e))"

definition create_notification_for_role ::
  "environment \<Rightarrow> string \<Rightarrow> string \<Rightarrow> string \<Rightarrow> string \<Rightarrow> string \<Rightarrow> string option \<Rightarrow> string option \<Rightarrow>
   database \<Rightarrow> database \<times> exn option" where
  "create_notification_for_role env r ttl msg ty cat url txt db =
     notify_users env (filter (\<lambda>u. role u = r) (staff db)) ttl msg ty cat url txt db"

definition log_audit ::
  "environment \<Rightarrow> user \<Rightarrow> sale_request \<Rightarrow> string \<Rightarrow> string \<Rightarrow> int option \<Rightarrow>
   audit_values option \<Rightarrow> audit_values option \<Rightarrow> int option \<Rightarrow> database \<Rightarrow> database \<times> exn option" where
  "log_audit env cu req act tbl rid old new uid db =
     (let audit = \<lparr>a_user_id = (case uid of
                                   Some i \<Rightarrow> if i \<noteq> 0 then Some i else Some (user_id cu)
                                 | None \<Rightarrow> Some (user_id cu)),
                    action_type = act, table_name = tbl, record_id = rid,
                    old_values = old, new_values = new,
                    ip_address = remote_addr req, user_agent = user_agent_header req\<rparr>
      in if audit_fails env then (db, Some OperationalError)
         else (db\<lparr>audit_logs := audit_logs db @ [audit]\<rparr>, None))"

section \<open>The sale transaction\<close>

text \<open>
  The loop over the cart (the body of \<^verbatim>\<open>for item in items\<close>): a detail row is
  added for every line; the stock of a part that is found is decremented and
  floored at zero; parts that end below the low-stock threshold are collected.
  The collected parts are references to rows, kept here as their keys.
\<close>

fun sell_items :: "int \<Rightarrow> int \<Rightarrow> cart_item list \<Rightarrow> database \<Rightarrow> int list \<Rightarrow> database \<times> int list" where
  "sell_items sid threshold [] db low_stock_items = (db, low_stock_items)"
| "sell_items sid threshold (item # rest) db low_stock_items =
     (let sale_detail = \<lparr>sd_sale_id = sid, sd_part_id = item_id item,
                          sd_quantity = quantity item, price_at_sale = price item\<rparr>;
          db1 = db\<lparr>sale_details := sale_details db @ [sale_detail]\<rparr>
      in case parts db1 (item_id item) of
           None \<Rightarrow> sell_items sid threshold rest db1 low_stock_items
         | Some p \<Rightarrow>
             (let q = stock_quantity p - quantity item;
                  q' = (if q < 0 then 0 else q);
                  db2 = db1\<lparr>parts := (parts db1)(item_id item \<mapsto> p\<lparr>stock_quantity := q'\<rparr>)\<rparr>
              in sell_items sid threshold rest db2
                   (if q' < threshold \<and> q' \<ge> 0
                    then low_stock_items @ [item_id item] else low_stock_items)))"

text \<open>
  The low-stock threshold of the settings, 5 when none is stored;
  \<^verbatim>\<open>int()\<close> raises on a stored value it cannot read (\<open>None\<close> here).
\<close>

definition low_stock_threshold :: "environment \<Rightarrow> database \<Rightarrow> int option" where
  "low_stock_threshold env db =
     (case lookup_setting db ''inventory'' ''low_stock_threshold'' of
        Some s \<Rightarrow> py_int env (setting_value s)
      | None \<Rightarrow> Some 5)"

text \<open>
  Lines 2147 to 2196 of \<^verbatim>\<open>process_sale\<close>: everything up to and including the
  commit. The result is the committed database, the new sale and the collected
  low-stock parts, or the exception raised.
\<close>

definition sale_transaction ::
  "environment \<Rightarrow> user \<Rightarrow> sale_request \<Rightarrow> database \<Rightarrow> exn + (database \<times> sale \<times> int list)" where
  "sale_transaction env current_user req db =
     (let new_sale = \<lparr>sale_id = next_sale_id db,
                       total_amount = req_total req,
                       payment_method = paymentMethod req,
                       staff_id = user_id current_user,
                       customer_id = req_customer_id req,
                       receipt_number = generate_receipt_number (utcnow env) (uuid4 env),
                       sale_notes = req_notes req\<rparr>
      in case flush_sale db new_sale of
           Inl e \<Rightarrow> Inl e
         | Inr db1 \<Rightarrow>
             (case low_stock_threshold env db1 of
                None \<Rightarrow> Inl ValueError
              | Some threshold \<Rightarrow>
                  (case sell_items (sale_id new_sale) threshold (items req) db1 [] of
                     (db2, low_stock_items) \<Rightarrow>
                       (case db_commit env db2 of
                          Inl e \<Rightarrow> Inl e
                        | Inr db3 \<Rightarrow> Inr (db3, new_sale, low_stock_items)))))"

section \<open>The triggers after the commit\<close>

text \<open>The peso sign of the messages, as its UTF-8 bytes.\<close>

definition peso :: string where
  "peso = [CHR 0xE2, CHR 0x82, CHR 0xB1]"

text \<open>1) Critical stock alerts for managers; no exception handler around them.\<close>

fun critical_stock_alerts :: "environment \<Rightarrow> int list \<Rightarrow> database \<Rightarrow> database \<times> exn option" where
  "critical_stock_alerts env [] db = (db, None)"
| "critical_stock_alerts env (pid # pids) db =
     (case parts db pid of
        None \<Rightarrow> critical_stock_alerts env pids db
      | Some p \<Rightarrow>
          if stock_quantity p \<le> 2 then
            (case create_notification_for_role env ''manager'' ''Critical Stock Alert''
                    (part_name p @ '' is critically low on stock ('' @
                     str_int (stock_quantity p) @ '' remaining)'')
                    ''warning'' ''inventory'' (Some ''/inventory'') (Some ''View Inventory'') db of
               (db', None) \<Rightarrow> critical_stock_alerts env pids db'
             | (db', Some e) \<Rightarrow> (db', Some e))
          else critical_stock_alerts env pids db)"

text \<open>2) The completion notification for the staff member; no exception handler.\<close>

definition sale_completed_notification ::
  "environment \<Rightarrow> user \<Rightarrow> sale \<Rightarrow> real \<Rightarrow> database \<Rightarrow> database \<times> exn option" where
  "sale_completed_notification env current_user new_sale total_amt db =
     (let sale_identifier = (if receipt_number new_sale \<noteq> [] then receipt_number new_sale
                             else ''Sale #'' @ str_int (sale_id new_sale))
      in create_notification env (user_id current_user) ''Sale Completed''
           (sale_identifier @ '' completed for '' @ peso @ format_2f env total_amt @ ''.'')
           ''success'' ''sales'' (Some ''/sales'') (Some ''View Sale'') db)"

text \<open>
  3) High value alerts. Only the reading of the threshold is inside a handler:
  a stored value that \<^verbatim>\<open>float()\<close> rejects gives the default 5000.
\<close>

definition high_value_threshold :: "environment \<Rightarrow> database \<Rightarrow> real" where
  "high_value_threshold env db =
     (case lookup_setting db ''sales'' ''high_value_sale_threshold'' of
        Some s \<Rightarrow> (case py_float env (setting_value s) of Some v \<Rightarrow> v | None \<Rightarrow> 5000)
      | None \<Rightarrow> 5000)"

definition high_value_alerts ::
  "environment \<Rightarrow> user \<Rightarrow> real \<Rightarrow> database \<Rightarrow> database \<times> exn option" where
  "high_value_alerts env current_user total_amt db =
     (if total_amt \<ge> high_value_threshold env db then
        (let msg = ''High value sale of '' @ peso @ format_2f env total_amt @
                   '' processed by '' @ user_name current_user @ ''.''
         in case create_notification_for_role env ''manager'' ''High Value Sale'' msg
                   ''warning'' ''sales'' (Some ''/reports'') (Some ''View Reports'') db of
              (db', None) \<Rightarrow>
                create_notification_for_role env ''admin'' ''High Value Sale'' msg
                  ''warning'' ''sales'' (Some ''/reports'') (Some ''View Reports'') db'
            | (db', Some e) \<Rightarrow> (db', Some e))
      else (db, None))"

text \<open>4) Milestone alerts every ten sales; the caller swallows their exception.\<close>

definition sales_milestone_alerts :: "environment \<Rightarrow> database \<Rightarrow> database \<times> exn option" where
  "sales_milestone_alerts env db =
     (if count_fails env then (db, Some OperationalError)
      else
        (let total_sales_count = int (length (sales db))
         in if total_sales_count > 0 \<and> total_sales_count mod 10 = 0 then
              (let milestone_message = str_int total_sales_count @ '' total sales have been completed.''
               in case create_notification_for_role env ''manager'' ''Sales Milestone Reached''
                         milestone_message ''info'' ''sales'' (Some ''/reports'') (Some ''View Reports'') db of
                    (db', None) \<Rightarrow>
                      create_notification_for_role env ''admin'' ''Sales Milestone Reached''
                        milestone_message ''info'' ''sales'' (Some ''/reports'') (Some ''View Reports'') db'
                  | (db', Some e) \<Rightarrow> (db', Some e))
            else (db, None)))"

text \<open>
  Lines 2198 to 2287: the triggers in order, then the audit entry. An exception
  of the critical, completion or high-value step, or of the audit entry, leaves
  the function; an exception of the milestone step is dropped.
\<close>

definition post_commit ::
  "environment \<Rightarrow> user \<Rightarrow> sale_request \<Rightarrow> sale \<Rightarrow> int list \<Rightarrow> database \<Rightarrow> database \<times> exn option" where
  "post_commit env current_user req new_sale low_stock_items db =
     (case critical_stock_alerts env low_stock_items db of
        (db1, Some e) \<Rightarrow> (db1, Some e)
      | (db1, None) \<Rightarrow>
          (case sale_completed_notification env current_user new_sale (req_total req) db1 of
             (db2, Some e) \<Rightarrow> (db2, Some e)
           | (db2, None) \<Rightarrow>
               (case high_value_alerts env current_user (req_total req) db2 of
                  (db3, Some e) \<Rightarrow> (db3, Some e)
                | (db3, None) \<Rightarrow>
                    (case sales_milestone_alerts env db3 of
                       (db4, ignored) \<Rightarrow>
                         log_audit env current_user req ''create'' ''sales'' (Some (sale_id new_sale)) None
                           (Some \<lparr>av_total_amount = req_total req,
                                  av_payment_method = paymentMethod req,
                                  av_customer_id = req_customer_id req,
                                  av_items = items req\<rparr>)
                           (Some (user_id current_user)) db4))))"

text \<open>
  The route. An exception before or at the commit rolls the session back to the
  database as it was; an exception after the commit finds the sale committed,
  and the rollback only drops the write that failed. Both give status 500.
\<close>

definition process_sale ::
  "environment \<Rightarrow> user \<Rightarrow> sale_request \<Rightarrow> database \<Rightarrow> database \<times> response" where
  "process_sale env current_user req db =
     (case sale_transaction env current_user req db of
        Inl e \<Rightarrow> (db, Error500 e)
      | Inr (db1, new_sale, low_stock_items) \<Rightarrow>
          (case post_commit env current_user req new_sale low_stock_items db1 of
             (db2, None) \<Rightarrow> (db2, Ok200 (sale_id new_sale) (receipt_number new_sale))
           | (db2, Some e) \<Rightarrow> (db2, Error500 e)))"

section \<open>Notions used to state the properties\<close>

definition managers :: "database \<Rightarrow> user list" where
  "managers db = filter (\<lambda>u. role u = ''manager'') (staff db)"

definition admins :: "database \<Rightarrow> user list" where
  "admins db = filter (\<lambda>u. role u = ''admin'') (staff db)"

text \<open>The notifications written between two states of the database.\<close>

definition new_notifications :: "database \<Rightarrow> database \<Rightarrow> notification list" where
  "new_notifications db db' = drop (length (notifications db)) (notifications db')"

text \<open>The critical-stock warning about part \<open>p\<close> addressed to user \<open>u\<close>.\<close>

definition critical_stock_alert :: "part \<Rightarrow> user \<Rightarrow> notification" where
  "critical_stock_alert p u =
     \<lparr>n_user_id = user_id u, title = ''Critical Stock Alert'',
      message = part_name p @ '' is critically low on stock ('' @
                str_int (stock_quantity p) @ '' remaining)'',
      n_type = ''warning'', category = ''inventory'',
      action_url = Some ''/inventory'', action_text = Some ''View Inventory''\<rparr>"

text \<open>The high-value warning about a sale of \<open>amount\<close> by \<open>seller\<close>, addressed to \<open>u\<close>.\<close>

definition high_value_alert :: "environment \<Rightarrow> user \<Rightarrow> real \<Rightarrow> user \<Rightarrow> notification" where
  "high_value_alert env seller amount u =
     \<lparr>n_user_id = user_id u, title = ''High Value Sale'',
      message = ''High value sale of '' @ peso @ format_2f env amount @
                '' processed by '' @ user_name seller @ ''.'',
      n_type = ''warning'', category = ''sales'',
      action_url = Some ''/reports'', action_text = Some ''View Reports''\<rparr>"

text \<open>The detail row the loop adds for a cart line.\<close>

definition detail_of :: "int \<Rightarrow> cart_item \<Rightarrow> sale_detail" where
  "detail_of sid it = \<lparr>sd_sale_id = sid, sd_part_id = item_id it,
                       sd_quantity = quantity it, price_at_sale = price it\<rparr>"

text \<open>Part \<open>pid\<close> exists and its stock is below \<open>thr\<close>.\<close>

definition below :: "database \<Rightarrow> int \<Rightarrow> int \<Rightarrow> bool" where
  "below db thr pid = (case parts db pid of Some p \<Rightarrow> stock_quantity p < thr | None \<Rightarrow> False)"

text \<open>The database with the notifications \<open>ns\<close> appended.\<close>

definition add_notifications :: "database \<Rightarrow> notification list \<Rightarrow> database" where
  "add_notifications db ns = db\<lparr>notifications := notifications db @ ns\<rparr>"

text \<open>The critical-stock warnings due for part \<open>pid\<close>: one per manager when its stock is at most 2.\<close>

definition critical_alerts_for :: "database \<Rightarrow> int \<Rightarrow> notification list" where
  "critical_alerts_for db pid =
     (case parts db pid of
        Some p \<Rightarrow> if stock_quantity p \<le> 2 then map (critical_stock_alert p) (managers db) else []
      | None \<Rightarrow> [])"

text \<open>The row that \<^verbatim>\<open>create_notification\<close> writes for user \<open>u\<close>.\<close>

definition notification_of ::
  "string \<Rightarrow> string \<Rightarrow> string \<Rightarrow> string \<Rightarrow> string option \<Rightarrow> string option \<Rightarrow> user \<Rightarrow> notification" where
  "notification_of ttl msg ty cat url txt u =
     \<lparr>n_user_id = user_id u, title = ttl, message = msg, n_type = ty, category = cat,
      action_url = url, action_text = txt\<rparr>"

text \<open>The completion notice of a sale for the staff member who processed it.\<close>

definition completion_notice :: "environment \<Rightarrow> user \<Rightarrow> sale \<Rightarrow> real \<Rightarrow> notification" where
  "completion_notice env seller s amount =
     \<lparr>n_user_id = user_id seller, title = ''Sale Completed'',
      message = (if receipt_number s \<noteq> [] then receipt_number s
                 else ''Sale #'' @ str_int (sale_id s)) @
                '' completed for '' @ peso @ format_2f env amount @ ''.'',
      n_type = ''success'', category = ''sales'',
      action_url = Some ''/sales'', action_text = Some ''View Sale''\<rparr>"

text \<open>
  The conditions under which the transaction of a request commits: the customer
  reference resolves, the receipt number is new, the low-stock threshold is
  readable, the detail rows are accepted by the constraints of their table, and
  the storage does not fail.
\<close>

definition transaction_accepted :: "environment \<Rightarrow> sale_request \<Rightarrow> database \<Rightarrow> bool" where
  "transaction_accepted env req db =
     ((case req_customer_id req of Some c \<Rightarrow> c \<in> set (customers db) | None \<Rightarrow> True) \<and>
      generate_receipt_number (utcnow env) (uuid4 env) \<notin> set (map receipt_number (sales db)) \<and>
      low_stock_threshold env db \<noteq> None \<and>
      distinct (map sd_key (sale_details db) @ map (Pair (next_sale_id db)) (map item_id (items req))) \<and>
      list_all (\<lambda>d. parts db (sd_part_id d) \<noteq> None) (sale_details db) \<and>
      list_all (\<lambda>it. parts db (item_id it) \<noteq> None) (items req) \<and>
      \<not> commit_fails env)"

text \<open>The sum of the cart lines, which the code never computes.\<close>

definition line_sum :: "cart_item list \<Rightarrow> real" where
  "line_sum its = sum_list (map (\<lambda>it. of_int (quantity it) * price it) its)"

section \<open>Example data\<close>

definition example_env :: environment where
  "example_env =
     \<lparr>utcnow = \<lparr>year = 2026, month = 11, day = 6\<rparr>,
      uuid4 = 0x3f2a9c1e0b7d4e5f8a6b1c2d3e4f5a6b,
      py_int = map_of [(''2'', 2), (''5'', 5)],
      py_float = map_of [(''5000'', 5000)],
      format_2f = (\<lambda>r. str_int \<lfloor>r\<rfloor> @ ''.00''),
      commit_fails = False, notification_fails = (\<lambda>n. False),
      count_fails = False, audit_fails = False\<rparr>"

definition example_db :: database where
  "example_db =
     \<lparr>parts = [1 \<mapsto> \<lparr>part_name = ''Spark Plug'', stock_quantity = 5\<rparr>,
               2 \<mapsto> \<lparr>part_name = ''Brake Pad'', stock_quantity = 3\<rparr>],
      staff = [\<lparr>user_id = 1, user_name = ''Ana'', role = ''admin''\<rparr>,
               \<lparr>user_id = 2, user_name = ''Ben'', role = ''manager''\<rparr>,
               \<lparr>user_id = 3, user_name = ''Cy'', role = ''staff''\<rparr>],
      customers = [], sales = [], sale_details = [], notifications = [], audit_logs = [],
      settings = []\<rparr>"

definition example_user :: user where
  "example_user = \<lparr>user_id = 3, user_name = ''Cy'', role = ''staff''\<rparr>"

definition example_request :: sale_request where
  "example_request =
     \<lparr>req_total = 200, paymentMethod = ''cash'', req_customer_id = None, req_notes = [],
      items = [\<lparr>item_id = 1, quantity = 2, price = 100\<rparr>],
      remote_addr = None, user_agent_header = None\<rparr>"

text \<open>The same request with a declared total that is not the sum of its lines.\<close>

definition mismatched_request :: sale_request where
  "mismatched_request = example_request\<lparr>req_total := 1\<rparr>"

definition empty_cart_request :: sale_request where
  "empty_cart_request = example_request\<lparr>req_total := 0, items := []\<rparr>"

definition negative_quantity_request :: sale_request where
  "negative_quantity_request =
     example_request\<lparr>items := [\<lparr>item_id = 1, quantity = - 3, price = 100\<rparr>]\<rparr>"

definition duplicate_item_request :: sale_request where
  "duplicate_item_request =
     example_request\<lparr>items := [\<lparr>item_id = 1, quantity = 1, price = 100\<rparr>,
                               \<lparr>item_id = 1, quantity = 1, price = 100\<rparr>]\<rparr>"

definition unknown_item_request :: sale_request where
  "unknown_item_request =
     example_request\<lparr>items := [\<lparr>item_id = 9, quantity = 2, price = 100\<rparr>]\<rparr>"

text \<open>A sale of 6000 that leaves one Spark Plug.\<close>

definition high_value_request :: sale_request where
  "high_value_request =
     example_request\<lparr>req_total := 6000,
                       items := [\<lparr>item_id = 1, quantity = 4, price = 1500\<rparr>]\<rparr>"

text \<open>A sale that leaves two Brake Pads, and a database whose low-stock threshold is 2.\<close>

definition brake_pad_request :: sale_request where
  "brake_pad_request =
     example_request\<lparr>req_total := 10, items := [\<lparr>item_id = 2, quantity = 1, price = 10\<rparr>]\<rparr>"

definition threshold_two_db :: database where
  "threshold_two_db =
     example_db\<lparr>settings := [\<lparr>s_category = ''inventory'', setting_key = ''low_stock_threshold'',
                                setting_value = ''2''\<rparr>]\<rparr>"

text \<open>Environments with one injected failure.\<close>

definition commit_failure_env :: environment where
  "commit_failure_env = example_env\<lparr>commit_fails := True\<rparr>"

definition completion_failure_env :: environment where
  "completion_failure_env =
     example_env\<lparr>notification_fails := (\<lambda>n. title n = ''Sale Completed'')\<rparr>"

section \<open>Properties of the receipt generator\<close>

lemma is_digit_digit_char: "d < 10 \<Longrightarrow> is_digit (digit_char d)"
  unfolding is_digit_def digit_char_def by (rule nth_mem) simp

lemma str_nat_digits: "list_all is_digit (str_nat n)"
proof (induction n rule: str_nat.induct)
  case (1 n)
  show ?case
  proof (cases "n < 10")
    case True
    then show ?thesis by (simp add: str_nat.simps [of n] is_digit_digit_char)
  next
    case False
    with 1 show ?thesis by (simp add: str_nat.simps [of n] is_digit_digit_char)
  qed
qed

lemma str_nat_length: "0 < k \<Longrightarrow> n < 10 ^ k \<Longrightarrow> length (str_nat n) \<le> k"
proof (induction n arbitrary: k rule: str_nat.induct)
  case (1 n)
  show ?case
  proof (cases "n < 10")
    case True
    with 1(2) show ?thesis by (simp add: str_nat.simps [of n])
  next
    case False
    have k2: "1 < k" using 1(2,3) False by (cases "k = 1") auto
    then obtain j where j: "k = Suc j" "0 < j" by (cases k) auto
    with 1(3) have "n div 10 < 10 ^ j" by (simp add: less_mult_imp_div_less mult.commute)
    with 1(1) [OF False j(2)] have "length (str_nat (n div 10)) \<le> j" by simp
    with False j show ?thesis by (simp add: str_nat.simps [of n])
  qed
qed

lemma zero_pad_length: "length s \<le> w \<Longrightarrow> length (zero_pad w s) = w"
  by (simp add: zero_pad_def)

lemma is_digit_zero: "is_digit (CHR ''0'')"
  by (simp add: is_digit_def)

lemma zero_pad_digits: "list_all is_digit s \<Longrightarrow> list_all is_digit (zero_pad w s)"
  by (auto simp: zero_pad_def is_digit_zero list_all_iff)

lemma strftime_Ymd_length:
  assumes "year t \<le> 9999" "month t \<le> 12" "day t \<le> 31"
  shows "length (strftime_Ymd t) = 8"
proof -
  have "length (str_nat (year t)) \<le> 4" using assms(1) by (intro str_nat_length) auto
  moreover have "length (str_nat (month t)) \<le> 2" using assms(2) by (intro str_nat_length) auto
  moreover have "length (str_nat (day t)) \<le> 2" using assms(3) by (intro str_nat_length) auto
  ultimately show ?thesis by (simp add: strftime_Ymd_def zero_pad_length)
qed

lemma strftime_Ymd_digits: "list_all is_digit (strftime_Ymd t)"
  by (simp add: strftime_Ymd_def zero_pad_digits str_nat_digits)

lemma hex_char_range: "d < 16 \<Longrightarrow> hex_char d \<in> set ''0123456789abcdef''"
  unfolding hex_char_def by (rule nth_mem) simp

lemma upper_char_hex: "c \<in> set ''0123456789abcdef'' \<Longrightarrow> is_upper_alnum (upper_char c)"
  by (auto simp: upper_char_def is_upper_alnum_def)

lemma upper_hex_char: "d < 16 \<Longrightarrow> is_upper_alnum (upper_char (hex_char d))"
  by (rule upper_char_hex) (rule hex_char_range)

lemma hex32_length: "length (hex32 w) = 32"
  by (simp add: hex32_def)

lemma hex32_upper: "list_all is_upper_alnum (map upper_char (hex32 w))"
  by (simp add: hex32_def list_all_iff upper_hex_char)

lemma uuid_prefix: "take 8 (uuid_str u) = take 8 (hex32 u)"
  by (simp add: uuid_str_def Let_def hex32_length)

lemma uuid_suffix_length: "length (map upper_char (take 8 (uuid_str u))) = 8"
  by (simp add: uuid_prefix hex32_length)

lemma uuid_suffix_upper: "list_all is_upper_alnum (map upper_char (take 8 (uuid_str u)))"
proof -
  have "list_all is_upper_alnum (take 8 (map upper_char (hex32 u)))"
    using hex32_upper [of u] set_take_subset [of 8 "map upper_char (hex32 u)"]
    unfolding list_all_iff by blast
  then show ?thesis by (simp add: uuid_prefix take_map)
qed

section \<open>The loop over the cart\<close>

lemma sell_items_staff: "sell_items sid thr its db low = (db', low') \<Longrightarrow> staff db' = staff db"
  by (induction its arbitrary: db low) (auto simp: Let_def split: option.splits)
lemma sell_items_customers: "sell_items sid thr its db low = (db', low') \<Longrightarrow> customers db' = customers db"
  by (induction its arbitrary: db low) (auto simp: Let_def split: option.splits)
lemma sell_items_sales: "sell_items sid thr its db low = (db', low') \<Longrightarrow> sales db' = sales db"
  by (induction its arbitrary: db low) (auto simp: Let_def split: option.splits)
lemma sell_items_notifications: "sell_items sid thr its db low = (db', low') \<Longrightarrow> notifications db' = notifications db"
  by (induction its arbitrary: db low) (auto simp: Let_def split: option.splits)
lemma sell_items_audit_logs: "sell_items sid thr its db low = (db', low') \<Longrightarrow> audit_logs db' = audit_logs db"
  by (induction its arbitrary: db low) (auto simp: Let_def split: option.splits)
lemma sell_items_settings: "sell_items sid thr its db low = (db', low') \<Longrightarrow> settings db' = settings db"
  by (induction its arbitrary: db low) (auto simp: Let_def split: option.splits)

lemma sell_items_details:
  "sell_items sid thr its db low = (db', low') \<Longrightarrow>
   sale_details db' = sale_details db @ map (detail_of sid) its"
  by (induction its arbitrary: db low) (auto simp: Let_def detail_of_def split: option.splits)

lemma sell_items_other_parts:
  "sell_items sid thr its db low = (db', low') \<Longrightarrow> pid \<notin> item_id ` set its \<Longrightarrow>
   parts db' pid = parts db pid"
  by (induction its arbitrary: db low) (auto simp: Let_def split: option.splits)

lemma sell_items_dom:
  "sell_items sid thr its db low = (db', low') \<Longrightarrow> (parts db' pid = None) = (parts db pid = None)"
  by (induction its arbitrary: db low) (auto simp: Let_def split: option.splits if_splits)

lemma sell_items_name:
  "sell_items sid thr its db low = (db', low') \<Longrightarrow> parts db pid = Some p \<Longrightarrow>
   \<exists>p'. parts db' pid = Some p' \<and> part_name p' = part_name p"
proof (induction its arbitrary: db low p)
  case Nil
  then show ?case by simp
next
  case (Cons it its)
  show ?case
  proof (cases "parts db (item_id it)")
    case None
    with Cons.prems have "sell_items sid thr its (db\<lparr>sale_details := sale_details db @ [detail_of sid it]\<rparr>) low = (db', low')"
      by (simp add: Let_def detail_of_def)
    from Cons.IH [OF this, of p] Cons.prems(2) show ?thesis by simp
  next
    case (Some q)
    let ?q' = "if stock_quantity q - quantity it < 0 then 0 else stock_quantity q - quantity it"
    let ?db2 = "db\<lparr>sale_details := sale_details db @ [detail_of sid it],
                    parts := (parts db)(item_id it \<mapsto> q\<lparr>stock_quantity := ?q'\<rparr>)\<rparr>"
    from Some Cons.prems obtain l where
      run: "sell_items sid thr its ?db2 l = (db', low')"
      by (simp add: Let_def detail_of_def)
    show ?thesis
    proof (cases "pid = item_id it")
      case True
      with Some Cons.prems(2) have "parts ?db2 pid = Some (p\<lparr>stock_quantity := ?q'\<rparr>)" by simp
      from Cons.IH [OF run this] show ?thesis by simp
    next
      case False
      with Cons.prems(2) have "parts ?db2 pid = Some p" by simp
      from Cons.IH [OF run this] show ?thesis by simp
    qed
  qed
qed

lemma sell_items_stock:
  "sell_items sid thr its db low = (db', low') \<Longrightarrow> distinct (map item_id its) \<Longrightarrow>
   it \<in> set its \<Longrightarrow> parts db (item_id it) = Some p \<Longrightarrow>
   parts db' (item_id it) = Some (p\<lparr>stock_quantity := max 0 (stock_quantity p - quantity it)\<rparr>)"
proof (induction its arbitrary: db low)
  case Nil
  then show ?case by simp
next
  case (Cons x xs)
  show ?case
  proof (cases "parts db (item_id x)")
    case None
    with Cons.prems(4) have ne: "item_id it \<noteq> item_id x" by auto
    with Cons.prems(3) have mem: "it \<in> set xs" by auto
    from None Cons.prems(1) have
      run: "sell_items sid thr xs (db\<lparr>sale_details := sale_details db @ [detail_of sid x]\<rparr>) low = (db', low')"
      by (simp add: Let_def detail_of_def)
    from Cons.IH [OF run _ mem] Cons.prems(2,4) show ?thesis by simp
  next
    case (Some q)
    let ?q' = "if stock_quantity q - quantity x < 0 then 0 else stock_quantity q - quantity x"
    let ?db2 = "db\<lparr>sale_details := sale_details db @ [detail_of sid x],
                    parts := (parts db)(item_id x \<mapsto> q\<lparr>stock_quantity := ?q'\<rparr>)\<rparr>"
    from Some Cons.prems(1) obtain l where
      run: "sell_items sid thr xs ?db2 l = (db', low')"
      by (simp add: Let_def detail_of_def)
    show ?thesis
    proof (cases "it = x")
      case True
      with Cons.prems(2) have "item_id it \<notin> item_id ` set xs" by auto
      from sell_items_other_parts [OF run this] True Some Cons.prems(4)
      show ?thesis by (auto simp: max_def)
    next
      case False
      with Cons.prems(3) have mem: "it \<in> set xs" by auto
      then have "item_id it \<in> item_id ` set xs" by (rule imageI)
      with Cons.prems(2) have "item_id it \<noteq> item_id x" by auto
      with Cons.prems(4) have "parts ?db2 (item_id it) = Some p" by simp
      from Cons.IH [OF run _ mem this] Cons.prems(2) show ?thesis by simp
    qed
  qed
qed

lemma sell_items_low:
  "sell_items sid thr its db low = (db', low') \<Longrightarrow> distinct (map item_id its) \<Longrightarrow>
   low' = low @ filter (below db' thr) (map item_id its)"
proof (induction its arbitrary: db low)
  case Nil
  then show ?case by simp
next
  case (Cons x xs)
  from Cons.prems(2) have nx: "item_id x \<notin> item_id ` set xs" and dx: "distinct (map item_id xs)" by auto
  show ?case
  proof (cases "parts db (item_id x)")
    case None
    from None Cons.prems(1) have
      run: "sell_items sid thr xs (db\<lparr>sale_details := sale_details db @ [detail_of sid x]\<rparr>) low = (db', low')"
      by (simp add: Let_def detail_of_def)
    from sell_items_dom [OF Cons.prems(1), of "item_id x"] None have "\<not> below db' thr (item_id x)"
      by (simp add: below_def)
    with Cons.IH [OF run dx] show ?thesis by simp
  next
    case (Some q)
    let ?q' = "if stock_quantity q - quantity x < 0 then 0 else stock_quantity q - quantity x"
    let ?db2 = "db\<lparr>sale_details := sale_details db @ [detail_of sid x],
                    parts := (parts db)(item_id x \<mapsto> q\<lparr>stock_quantity := ?q'\<rparr>)\<rparr>"
    let ?l = "if ?q' < thr \<and> ?q' \<ge> 0 then low @ [item_id x] else low"
    from Some Cons.prems(1) have run: "sell_items sid thr xs ?db2 ?l = (db', low')"
      by (simp add: Let_def detail_of_def)
    from sell_items_other_parts [OF run nx] have "parts db' (item_id x) = Some (q\<lparr>stock_quantity := ?q'\<rparr>)"
      by simp
    then have "below db' thr (item_id x) = (?q' < thr \<and> ?q' \<ge> 0)" by (simp add: below_def)
    with Cons.IH [OF run dx] show ?thesis by simp
  qed
qed


section \<open>Notifications written by the triggers\<close>

lemma add_notifications_Nil [simp]: "add_notifications db [] = db"
  by (simp add: add_notifications_def)

lemma add_notifications_append [simp]:
  "add_notifications (add_notifications db xs) ys = add_notifications db (xs @ ys)"
  by (simp add: add_notifications_def)

lemma add_notifications_fields [simp]:
  "parts (add_notifications db ns) = parts db"
  "staff (add_notifications db ns) = staff db"
  "customers (add_notifications db ns) = customers db"
  "sales (add_notifications db ns) = sales db"
  "sale_details (add_notifications db ns) = sale_details db"
  "audit_logs (add_notifications db ns) = audit_logs db"
  "settings (add_notifications db ns) = settings db"
  "notifications (add_notifications db ns) = notifications db @ ns"
  by (simp_all add: add_notifications_def)

lemma managers_add [simp]: "managers (add_notifications db ns) = managers db"
  by (simp add: managers_def)

lemma admins_add [simp]: "admins (add_notifications db ns) = admins db"
  by (simp add: admins_def)

lemma critical_alerts_for_add [simp]:
  "critical_alerts_for (add_notifications db ns) pid = critical_alerts_for db pid"
  by (simp add: critical_alerts_for_def split: option.splits)

lemma high_value_threshold_add [simp]:
  "high_value_threshold env (add_notifications db ns) = high_value_threshold env db"
  by (simp add: high_value_threshold_def lookup_setting_def split: option.splits)

lemma create_notification_cases:
  "create_notification env uid ttl msg ty cat url txt db = (db', r) \<Longrightarrow>
   (r = None \<and> db' = add_notifications db [\<lparr>n_user_id = uid, title = ttl, message = msg, n_type = ty,
        category = cat, action_url = url, action_text = txt\<rparr>]) \<or>
   (r \<noteq> None \<and> db' = db)"
  by (auto simp: create_notification_def add_notifications_def Let_def split: if_splits)

lemma notify_users_ok:
  "notify_users env us ttl msg ty cat url txt db = (db', None) \<Longrightarrow>
   db' = add_notifications db (map (notification_of ttl msg ty cat url txt) us)"
proof (induction us arbitrary: db)
  case Nil
  then show ?case by simp
next
  case (Cons u us)
  obtain d r where c: "create_notification env (user_id u) ttl msg ty cat url txt db = (d, r)"
    by (cases "create_notification env (user_id u) ttl msg ty cat url txt db")
  with Cons.prems have r: "r = None" and run: "notify_users env us ttl msg ty cat url txt d = (db', None)"
    by (auto split: option.splits)
  from create_notification_cases [OF c] r
  have d: "d = add_notifications db [notification_of ttl msg ty cat url txt u]"
    by (simp add: notification_of_def)
  from Cons.IH [OF run] d show ?case by simp
qed

lemma notify_users_any:
  "notify_users env us ttl msg ty cat url txt db = (db', r) \<Longrightarrow>
   \<exists>ns. db' = add_notifications db ns \<and> (\<forall>n \<in> set ns. title n = ttl \<and> n_type n = ty \<and> category n = cat)"
proof (induction us arbitrary: db)
  case Nil
  then have "db' = add_notifications db []" by simp
  then show ?case by (intro exI [of _ "[]"]) simp
next
  case (Cons u us)
  obtain d r0 where c: "create_notification env (user_id u) ttl msg ty cat url txt db = (d, r0)"
    by (cases "create_notification env (user_id u) ttl msg ty cat url txt db")
  show ?case
  proof (cases r0)
    case None
    with c Cons.prems have run: "notify_users env us ttl msg ty cat url txt d = (db', r)" by simp
    from create_notification_cases [OF c] None
    have d: "d = add_notifications db [notification_of ttl msg ty cat url txt u]"
      by (simp add: notification_of_def)
    from Cons.IH [OF run] obtain ns where
      ns: "db' = add_notifications d ns" "\<forall>n \<in> set ns. title n = ttl \<and> n_type n = ty \<and> category n = cat"
      by blast
    from ns d have "db' = add_notifications db (notification_of ttl msg ty cat url txt u # ns)" by simp
    moreover from ns(2) have
      "\<forall>n \<in> set (notification_of ttl msg ty cat url txt u # ns). title n = ttl \<and> n_type n = ty \<and> category n = cat"
      by (simp add: notification_of_def)
    ultimately show ?thesis by blast
  next
    case (Some e)
    with c Cons.prems have "db' = d" by simp
    moreover from create_notification_cases [OF c] Some have "d = db" by simp
    ultimately have "db' = add_notifications db []" by simp
    then show ?thesis by (intro exI [of _ "[]"]) simp
  qed
qed

lemma for_role_ok:
  "create_notification_for_role env r ttl msg ty cat url txt db = (db', None) \<Longrightarrow>
   db' = add_notifications db (map (notification_of ttl msg ty cat url txt) (filter (\<lambda>u. role u = r) (staff db)))"
  unfolding create_notification_for_role_def by (rule notify_users_ok)

lemma for_role_any:
  "create_notification_for_role env r ttl msg ty cat url txt db = (db', res) \<Longrightarrow>
   \<exists>ns. db' = add_notifications db ns \<and> (\<forall>n \<in> set ns. title n = ttl \<and> n_type n = ty \<and> category n = cat)"
  unfolding create_notification_for_role_def by (rule notify_users_any)

lemma critical_stock_alerts_any:
  "critical_stock_alerts env low db = (db', r) \<Longrightarrow> \<exists>ns. db' = add_notifications db ns"
proof (induction low arbitrary: db)
  case Nil
  then have "db' = add_notifications db []" by simp
  then show ?case by blast
next
  case (Cons pid pids)
  show ?case
  proof (cases "parts db pid")
    case None
    with Cons.prems have "critical_stock_alerts env pids db = (db', r)" by simp
    from Cons.IH [OF this] show ?thesis .
  next
    case (Some p)
    show ?thesis
    proof (cases "stock_quantity p \<le> 2")
      case False
      with Some Cons.prems have "critical_stock_alerts env pids db = (db', r)" by simp
      from Cons.IH [OF this] show ?thesis .
    next
      case True
      let ?m = "part_name p @ '' is critically low on stock ('' @ str_int (stock_quantity p) @ '' remaining)''"
      obtain d r0 where c: "create_notification_for_role env ''manager'' ''Critical Stock Alert'' ?m
          ''warning'' ''inventory'' (Some ''/inventory'') (Some ''View Inventory'') db = (d, r0)"
        by (cases "create_notification_for_role env ''manager'' ''Critical Stock Alert'' ?m
          ''warning'' ''inventory'' (Some ''/inventory'') (Some ''View Inventory'') db")
      from for_role_any [OF c] obtain ns where d: "d = add_notifications db ns" by blast
      show ?thesis
      proof (cases r0)
        case None
        with c Some True Cons.prems have "critical_stock_alerts env pids d = (db', r)" by simp
        from Cons.IH [OF this] obtain ms where "db' = add_notifications d ms" by blast
        with d have "db' = add_notifications db (ns @ ms)" by simp
        then show ?thesis by blast
      next
        case (Some e)
        with c \<open>parts db pid = Some p\<close> True Cons.prems have "db' = d" by simp
        with d show ?thesis by blast
      qed
    qed
  qed
qed

lemma critical_stock_alerts_ok:
  "critical_stock_alerts env low db = (db', None) \<Longrightarrow>
   db' = add_notifications db (concat (map (critical_alerts_for db) low))"
proof (induction low arbitrary: db)
  case Nil
  then show ?case by simp
next
  case (Cons pid pids)
  show ?case
  proof (cases "parts db pid")
    case None
    with Cons.prems have "critical_stock_alerts env pids db = (db', None)" by simp
    from Cons.IH [OF this] None show ?thesis by (simp add: critical_alerts_for_def)
  next
    case (Some p)
    show ?thesis
    proof (cases "stock_quantity p \<le> 2")
      case False
      with Some Cons.prems have "critical_stock_alerts env pids db = (db', None)" by simp
      from Cons.IH [OF this] Some False show ?thesis by (simp add: critical_alerts_for_def)
    next
      case True
      let ?m = "part_name p @ '' is critically low on stock ('' @ str_int (stock_quantity p) @ '' remaining)''"
      obtain d r0 where c: "create_notification_for_role env ''manager'' ''Critical Stock Alert'' ?m
          ''warning'' ''inventory'' (Some ''/inventory'') (Some ''View Inventory'') db = (d, r0)"
        by (cases "create_notification_for_role env ''manager'' ''Critical Stock Alert'' ?m
          ''warning'' ''inventory'' (Some ''/inventory'') (Some ''View Inventory'') db")
      with Some True Cons.prems have r0: "r0 = None" and run: "critical_stock_alerts env pids d = (db', None)"
        by (auto split: option.splits)
      from for_role_ok [OF c [unfolded r0]]
      have d: "d = add_notifications db (critical_alerts_for db pid)"
        by (simp add: critical_alerts_for_def Some True managers_def critical_stock_alert_def notification_of_def)
      from Cons.IH [OF run] d show ?thesis by simp
    qed
  qed
qed


lemma sale_completed_cases:
  "sale_completed_notification env cu s t db = (db', r) \<Longrightarrow>
   (r = None \<and> db' = add_notifications db [completion_notice env cu s t]) \<or> (r \<noteq> None \<and> db' = db)"
  unfolding sale_completed_notification_def Let_def completion_notice_def
  by (rule create_notification_cases)

lemma high_value_alerts_any:
  "high_value_alerts env cu t db = (db', r) \<Longrightarrow> \<exists>ns. db' = add_notifications db ns"
proof (cases "t \<ge> high_value_threshold env db")
  case False
  assume "high_value_alerts env cu t db = (db', r)"
  with False have "db' = add_notifications db []" by (simp add: high_value_alerts_def)
  then show ?thesis by blast
next
  case True
  assume h: "high_value_alerts env cu t db = (db', r)"
  let ?m = "''High value sale of '' @ peso @ format_2f env t @ '' processed by '' @ user_name cu @ ''.''"
  obtain d r0 where c: "create_notification_for_role env ''manager'' ''High Value Sale'' ?m
      ''warning'' ''sales'' (Some ''/reports'') (Some ''View Reports'') db = (d, r0)"
    by (cases "create_notification_for_role env ''manager'' ''High Value Sale'' ?m
      ''warning'' ''sales'' (Some ''/reports'') (Some ''View Reports'') db")
  from for_role_any [OF c] obtain ns where d: "d = add_notifications db ns" by blast
  show ?thesis
  proof (cases r0)
    case None
    with h True c have "create_notification_for_role env ''admin'' ''High Value Sale'' ?m
      ''warning'' ''sales'' (Some ''/reports'') (Some ''View Reports'') d = (db', r)"
      by (simp add: high_value_alerts_def Let_def)
    from for_role_any [OF this] obtain ms where "db' = add_notifications d ms" by blast
    with d have "db' = add_notifications db (ns @ ms)" by simp
    then show ?thesis by blast
  next
    case (Some e)
    with h True c have "db' = d" by (simp add: high_value_alerts_def Let_def)
    with d show ?thesis by blast
  qed
qed

lemma high_value_alerts_ok:
  "high_value_alerts env cu t db = (db', None) \<Longrightarrow>
   db' = add_notifications db
     (if t \<ge> high_value_threshold env db
      then map (high_value_alert env cu t) (managers db @ admins db) else [])"
proof (cases "t \<ge> high_value_threshold env db")
  case False
  assume "high_value_alerts env cu t db = (db', None)"
  with False show ?thesis by (simp add: high_value_alerts_def)
next
  case True
  assume h: "high_value_alerts env cu t db = (db', None)"
  let ?m = "''High value sale of '' @ peso @ format_2f env t @ '' processed by '' @ user_name cu @ ''.''"
  obtain d r0 where c: "create_notification_for_role env ''manager'' ''High Value Sale'' ?m
      ''warning'' ''sales'' (Some ''/reports'') (Some ''View Reports'') db = (d, r0)"
    by (cases "create_notification_for_role env ''manager'' ''High Value Sale'' ?m
      ''warning'' ''sales'' (Some ''/reports'') (Some ''View Reports'') db")
  with h True have r0: "r0 = None" and
    run: "create_notification_for_role env ''admin'' ''High Value Sale'' ?m
      ''warning'' ''sales'' (Some ''/reports'') (Some ''View Reports'') d = (db', None)"
    by (auto simp: high_value_alerts_def Let_def split: option.splits)
  have eq: "notification_of ''High Value Sale'' ?m ''warning'' ''sales'' (Some ''/reports'') (Some ''View Reports'')
      = high_value_alert env cu t"
    by (rule ext) (simp add: notification_of_def high_value_alert_def)
  from for_role_ok [OF c [unfolded r0]] have d: "d = add_notifications db (map (high_value_alert env cu t) (managers db))"
    unfolding eq managers_def .
  from for_role_ok [OF run] have "db' = add_notifications d (map (high_value_alert env cu t) (admins d))"
    unfolding eq admins_def .
  with d True show ?thesis by simp
qed

lemma sales_milestone_alerts_any:
  "sales_milestone_alerts env db = (db', r) \<Longrightarrow>
   \<exists>ns. db' = add_notifications db ns \<and>
        (\<forall>n \<in> set ns. title n = ''Sales Milestone Reached'' \<and> n_type n = ''info'')"
proof -
  assume h: "sales_milestone_alerts env db = (db', r)"
  let ?c = "int (length (sales db))"
  let ?m = "str_int ?c @ '' total sales have been completed.''"
  show ?thesis
  proof (cases "\<not> count_fails env \<and> ?c > 0 \<and> ?c mod 10 = 0")
    case False
    with h have "db' = add_notifications db []"
      by (auto simp: sales_milestone_alerts_def Let_def split: if_splits)
    then show ?thesis by (intro exI [of _ "[]"]) simp
  next
    case True
    obtain d r0 where c: "create_notification_for_role env ''manager'' ''Sales Milestone Reached'' ?m
        ''info'' ''sales'' (Some ''/reports'') (Some ''View Reports'') db = (d, r0)"
      by (cases "create_notification_for_role env ''manager'' ''Sales Milestone Reached'' ?m
        ''info'' ''sales'' (Some ''/reports'') (Some ''View Reports'') db")
    from for_role_any [OF c] obtain ns where
      d: "d = add_notifications db ns" and
      ns: "\<forall>n \<in> set ns. title n = ''Sales Milestone Reached'' \<and> n_type n = ''info'' \<and> category n = ''sales''"
      by blast
    show ?thesis
    proof (cases r0)
      case None
      with h True c have "create_notification_for_role env ''admin'' ''Sales Milestone Reached'' ?m
        ''info'' ''sales'' (Some ''/reports'') (Some ''View Reports'') d = (db', r)"
        by (simp add: sales_milestone_alerts_def Let_def)
      from for_role_any [OF this] obtain ms where
        ms: "db' = add_notifications d ms"
          "\<forall>n \<in> set ms. title n = ''Sales Milestone Reached'' \<and> n_type n = ''info'' \<and> category n = ''sales''"
        by blast
      from ms(1) d have "db' = add_notifications db (ns @ ms)" by simp
      moreover from ns ms(2) have
        "\<forall>n \<in> set (ns @ ms). title n = ''Sales Milestone Reached'' \<and> n_type n = ''info''" by auto
      ultimately show ?thesis by blast
    next
      case (Some e)
      with h True c have "db' = d" by (simp add: sales_milestone_alerts_def Let_def)
      with d ns show ?thesis by blast
    qed
  qed
qed

lemma log_audit_cases:
  "log_audit env cu req act tbl rid old new uid db = (db', r) \<Longrightarrow>
   (r = None \<and> (\<exists>a. db' = db\<lparr>audit_logs := audit_logs db @ [a]\<rparr>)) \<or> (r \<noteq> None \<and> db' = db)"
  by (auto simp: log_audit_def Let_def split: if_splits)


section \<open>The triggers in sequence and the transaction\<close>

lemma post_commit_ok:
  assumes "post_commit env cu req s low db = (db', None)"
  shows "\<exists>ms a. db' = (add_notifications db
            (concat (map (critical_alerts_for db) low) @
             completion_notice env cu s (req_total req) #
             (if req_total req \<ge> high_value_threshold env db
              then map (high_value_alert env cu (req_total req)) (managers db @ admins db) else []) @
             ms))\<lparr>audit_logs := audit_logs db @ [a]\<rparr> \<and>
          (\<forall>n \<in> set ms. title n = ''Sales Milestone Reached'' \<and> n_type n = ''info'')"
proof -
  obtain d1 r1 where c1: "critical_stock_alerts env low db = (d1, r1)"
    by (cases "critical_stock_alerts env low db")
  from assms c1 have r1: "r1 = None" by (cases r1) (simp_all add: post_commit_def)
  obtain d2 r2 where c2: "sale_completed_notification env cu s (req_total req) d1 = (d2, r2)"
    by (cases "sale_completed_notification env cu s (req_total req) d1")
  from assms c1 r1 c2 have r2: "r2 = None" by (cases r2) (simp_all add: post_commit_def)
  obtain d3 r3 where c3: "high_value_alerts env cu (req_total req) d2 = (d3, r3)"
    by (cases "high_value_alerts env cu (req_total req) d2")
  from assms c1 r1 c2 r2 c3 have r3: "r3 = None" by (cases r3) (simp_all add: post_commit_def)
  obtain d4 r4 where c4: "sales_milestone_alerts env d3 = (d4, r4)"
    by (cases "sales_milestone_alerts env d3")
  from assms c1 r1 c2 r2 c3 r3 c4 have
    c5: "log_audit env cu req ''create'' ''sales'' (Some (sale_id s)) None
           (Some \<lparr>av_total_amount = req_total req, av_payment_method = paymentMethod req,
                  av_customer_id = req_customer_id req, av_items = items req\<rparr>)
           (Some (user_id cu)) d4 = (db', None)"
    by (simp add: post_commit_def)
  from critical_stock_alerts_ok [OF c1 [unfolded r1]]
  have e1: "d1 = add_notifications db (concat (map (critical_alerts_for db) low))" .
  from sale_completed_cases [OF c2] r2
  have e2: "d2 = add_notifications d1 [completion_notice env cu s (req_total req)]" by simp
  from high_value_alerts_ok [OF c3 [unfolded r3]]
  have e3: "d3 = add_notifications d2
     (if req_total req \<ge> high_value_threshold env d2
      then map (high_value_alert env cu (req_total req)) (managers d2 @ admins d2) else [])" .
  from sales_milestone_alerts_any [OF c4] obtain ms where
    e4: "d4 = add_notifications d3 ms" and
    ms: "\<forall>n \<in> set ms. title n = ''Sales Milestone Reached'' \<and> n_type n = ''info''" by blast
  from log_audit_cases [OF c5] obtain a where e5: "db' = d4\<lparr>audit_logs := audit_logs d4 @ [a]\<rparr>" by auto
  have "db' = (add_notifications db
            (concat (map (critical_alerts_for db) low) @
             completion_notice env cu s (req_total req) #
             (if req_total req \<ge> high_value_threshold env db
              then map (high_value_alert env cu (req_total req)) (managers db @ admins db) else []) @
             ms))\<lparr>audit_logs := audit_logs db @ [a]\<rparr>"
    unfolding e5 e4 e3 e2 e1 by simp
  with ms show ?thesis by blast
qed

lemma post_commit_any:
  assumes "post_commit env cu req s low db = (db', r)"
  shows "\<exists>ns as. db' = (add_notifications db ns)\<lparr>audit_logs := audit_logs db @ as\<rparr>"
proof -
  have stop: "\<And>d ns. d = add_notifications db ns \<Longrightarrow>
      \<exists>ns as. d = (add_notifications db ns)\<lparr>audit_logs := audit_logs db @ as\<rparr>"
  proof -
    fix d ns assume "d = add_notifications db ns"
    then have "d = (add_notifications db ns)\<lparr>audit_logs := audit_logs db @ []\<rparr>"
      by (simp add: add_notifications_def)
    then show "\<exists>ns as. d = (add_notifications db ns)\<lparr>audit_logs := audit_logs db @ as\<rparr>" by blast
  qed
  obtain d1 r1 where c1: "critical_stock_alerts env low db = (d1, r1)"
    by (cases "critical_stock_alerts env low db")
  from critical_stock_alerts_any [OF c1] obtain n1 where e1: "d1 = add_notifications db n1" by blast
  show ?thesis
  proof (cases r1)
    case (Some e)
    with assms c1 have "db' = d1" by (simp add: post_commit_def)
    with e1 show ?thesis by (intro stop) simp
  next
    case None
    note r1 = this
    obtain d2 r2 where c2: "sale_completed_notification env cu s (req_total req) d1 = (d2, r2)"
      by (cases "sale_completed_notification env cu s (req_total req) d1")
    from sale_completed_cases [OF c2] e1 obtain n2 where e2: "d2 = add_notifications db n2"
      by (cases r2) auto
    show ?thesis
    proof (cases r2)
      case (Some e)
      with assms c1 r1 c2 have "db' = d2" by (simp add: post_commit_def)
      with e2 show ?thesis by (intro stop) simp
    next
      case None
      note r2 = this
      obtain d3 r3 where c3: "high_value_alerts env cu (req_total req) d2 = (d3, r3)"
        by (cases "high_value_alerts env cu (req_total req) d2")
      from high_value_alerts_any [OF c3] e2 obtain n3 where e3: "d3 = add_notifications db n3"
        by auto
      show ?thesis
      proof (cases r3)
        case (Some e)
        with assms c1 r1 c2 r2 c3 have "db' = d3" by (simp add: post_commit_def)
        with e3 show ?thesis by (intro stop) simp
      next
        case None
        note r3 = this
        obtain d4 r4 where c4: "sales_milestone_alerts env d3 = (d4, r4)"
          by (cases "sales_milestone_alerts env d3")
        from sales_milestone_alerts_any [OF c4] e3 obtain n4 where e4: "d4 = add_notifications db n4"
          by auto
        from assms c1 r1 c2 r2 c3 r3 c4 have
          c5: "log_audit env cu req ''create'' ''sales'' (Some (sale_id s)) None
                 (Some \<lparr>av_total_amount = req_total req, av_payment_method = paymentMethod req,
                        av_customer_id = req_customer_id req, av_items = items req\<rparr>)
                 (Some (user_id cu)) d4 = (db', r)"
          by (simp add: post_commit_def)
        from log_audit_cases [OF c5] have
          "(\<exists>a. db' = d4\<lparr>audit_logs := audit_logs d4 @ [a]\<rparr>) \<or> db' = d4" by auto
        then show ?thesis
        proof
          assume "\<exists>a. db' = d4\<lparr>audit_logs := audit_logs d4 @ [a]\<rparr>"
          then obtain a where "db' = d4\<lparr>audit_logs := audit_logs d4 @ [a]\<rparr>" ..
          with e4 have "db' = (add_notifications db n4)\<lparr>audit_logs := audit_logs db @ [a]\<rparr>" by simp
          then show ?thesis by blast
        next
          assume "db' = d4"
          with e4 show ?thesis by (intro stop) simp
        qed
      qed
    qed
  qed
qed

lemma low_stock_threshold_sales [simp]:
  "low_stock_threshold env (db\<lparr>sales := x\<rparr>) = low_stock_threshold env db"
  by (simp add: low_stock_threshold_def lookup_setting_def)

lemma sale_transaction_Inr:
  assumes "sale_transaction env cu req db = Inr (db1, s, low)"
  shows "\<exists>thr. low_stock_threshold env db = Some thr \<and>
           sell_items (sale_id s) thr (items req) (db\<lparr>sales := sales db @ [s]\<rparr>) [] = (db1, low) \<and>
           sale_details_constraints db1 \<and> \<not> commit_fails env \<and>
           total_amount s = req_total req"
  using assms
  by (auto simp: sale_transaction_def Let_def flush_sale_def db_commit_def
           split: if_splits option.splits prod.splits sum.splits)


lemma sell_items_total: "\<exists>db' low'. sell_items sid thr its db low = (db', low')"
  by (cases "sell_items sid thr its db low") blast

lemma sell_items_constraints:
  assumes "sell_items sid thr its db low = (db', low')"
  shows "sale_details_constraints db' =
     (distinct (map sd_key (sale_details db) @ map (Pair sid) (map item_id its)) \<and>
      list_all (\<lambda>d. parts db (sd_part_id d) \<noteq> None) (sale_details db) \<and>
      list_all (\<lambda>it. parts db (item_id it) \<noteq> None) its)"
proof -
  have k: "map sd_key (map (detail_of sid) its) = map (Pair sid) (map item_id its)"
    by (simp add: sd_key_def detail_of_def)
  have d: "(\<lambda>d. parts db' (sd_part_id d) \<noteq> None) = (\<lambda>d. parts db (sd_part_id d) \<noteq> None)"
    using sell_items_dom [OF assms] by simp
  have n: "list_all (\<lambda>d. parts db (sd_part_id d) \<noteq> None) (map (detail_of sid) its) =
           list_all (\<lambda>it. parts db (item_id it) \<noteq> None) its"
    by (simp add: list_all_iff detail_of_def)
  have "sale_details_constraints db' =
     (distinct (map sd_key (sale_details db) @ map sd_key (map (detail_of sid) its)) \<and>
      list_all (\<lambda>d. parts db (sd_part_id d) \<noteq> None) (sale_details db @ map (detail_of sid) its))"
    unfolding sale_details_constraints_def sell_items_details [OF assms] d by simp
  also have "\<dots> = (distinct (map sd_key (sale_details db) @ map (Pair sid) (map item_id its)) \<and>
      list_all (\<lambda>d. parts db (sd_part_id d) \<noteq> None) (sale_details db) \<and>
      list_all (\<lambda>it. parts db (item_id it) \<noteq> None) its)"
    unfolding k list_all_append n by simp
  finally show ?thesis .
qed

lemma sale_transaction_accepted:
  "(\<exists>x. sale_transaction env cu req db = Inr x) = transaction_accepted env req db"
proof -
  let ?s = "\<lparr>sale_id = next_sale_id db, total_amount = req_total req,
             payment_method = paymentMethod req, staff_id = user_id cu,
             customer_id = req_customer_id req,
             receipt_number = generate_receipt_number (utcnow env) (uuid4 env),
             sale_notes = req_notes req\<rparr>"
  let ?db1 = "db\<lparr>sales := sales db @ [?s]\<rparr>"
  let ?bad = "(case req_customer_id req of Some c \<Rightarrow> c \<notin> set (customers db) | None \<Rightarrow> False) \<or>
              generate_receipt_number (utcnow env) (uuid4 env) \<in> set (map receipt_number (sales db))"
  let ?C = "distinct (map sd_key (sale_details db) @ map (Pair (next_sale_id db)) (map item_id (items req))) \<and>
        list_all (\<lambda>d. parts db (sd_part_id d) \<noteq> None) (sale_details db) \<and>
        list_all (\<lambda>it. parts db (item_id it) \<noteq> None) (items req)"
  have acc: "transaction_accepted env req db =
     (\<not> ?bad \<and> low_stock_threshold env db \<noteq> None \<and> ?C \<and> \<not> commit_fails env)"
    unfolding transaction_accepted_def by (cases "req_customer_id req") auto
  show ?thesis
  proof (cases ?bad)
    case True
    then have "flush_sale db ?s = Inl IntegrityError" by (simp add: flush_sale_def)
    then have "sale_transaction env cu req db = Inl IntegrityError"
      by (simp add: sale_transaction_def Let_def)
    with True acc show ?thesis by simp
  next
    case False
    then have fl: "flush_sale db ?s = Inr ?db1" by (simp add: flush_sale_def)
    show ?thesis
    proof (cases "low_stock_threshold env db")
      case None
      with fl have "sale_transaction env cu req db = Inl ValueError"
        by (simp add: sale_transaction_def Let_def)
      with None acc show ?thesis by simp
    next
      case (Some thr)
      obtain db2 low where run: "sell_items (next_sale_id db) thr (items req) ?db1 [] = (db2, low)"
        using sell_items_total by blast
      from sell_items_constraints [OF run] have c: "sale_details_constraints db2 = ?C" by simp
      from fl Some run have st: "sale_transaction env cu req db =
          (case db_commit env db2 of Inl e \<Rightarrow> Inl e | Inr db3 \<Rightarrow> Inr (db3, ?s, low))"
        by (simp add: sale_transaction_def Let_def)
      show ?thesis
      proof (cases "?C \<and> \<not> commit_fails env")
        case True
        with c have "db_commit env db2 = Inr db2" by (simp add: db_commit_def)
        with st have "sale_transaction env cu req db = Inr (db2, ?s, low)" by simp
        moreover from True False Some acc have "transaction_accepted env req db" by simp
        ultimately show ?thesis by simp
      next
        case F: False
        with c have "\<exists>e. db_commit env db2 = Inl e" by (auto simp: db_commit_def)
        with st have "\<exists>e. sale_transaction env cu req db = Inl e" by auto
        moreover from F acc have "\<not> transaction_accepted env req db" by blast
        ultimately show ?thesis by auto
      qed
    qed
  qed
qed

lemma sale_transaction_rejected:
  "\<not> transaction_accepted env req db \<Longrightarrow> \<exists>e. sale_transaction env cu req db = Inl e"
  using sale_transaction_accepted [of env cu req db]
  by (cases "sale_transaction env cu req db") auto

lemma process_sale_rejected:
  "\<not> transaction_accepted env req db \<Longrightarrow>
   fst (process_sale env cu req db) = db \<and> status_code (snd (process_sale env cu req db)) = 500"
  using sale_transaction_rejected [of env req db cu] by (auto simp: process_sale_def)

lemma process_sale_Ok:
  assumes "process_sale env cu req db = (db', Ok200 sid rcp)"
  shows "\<exists>db1 s low. sale_transaction env cu req db = Inr (db1, s, low) \<and>
           post_commit env cu req s low db1 = (db', None) \<and> sid = sale_id s"
  using assms
  by (auto simp: process_sale_def split: sum.splits prod.splits option.splits)

lemma distinct_item_ids:
  "distinct (xs @ map (Pair sid) (map item_id its)) \<Longrightarrow> distinct (map item_id its)"
  by (metis distinct_append distinct_map)

lemma committed_state:
  assumes "sale_transaction env cu req db = Inr (db1, s, low)"
  shows "\<exists>thr. low_stock_threshold env db = Some thr \<and>
           sell_items (sale_id s) thr (items req) (db\<lparr>sales := sales db @ [s]\<rparr>) [] = (db1, low)"
    and "distinct (map item_id (items req))"
    and "list_all (\<lambda>it. parts db (item_id it) \<noteq> None) (items req)"
    and "total_amount s = req_total req"
proof -
  from sale_transaction_Inr [OF assms]
  show "\<exists>thr. low_stock_threshold env db = Some thr \<and>
           sell_items (sale_id s) thr (items req) (db\<lparr>sales := sales db @ [s]\<rparr>) [] = (db1, low)"
    and "total_amount s = req_total req" by blast+
  from assms have acc: "transaction_accepted env req db"
    using sale_transaction_accepted [of env cu req db] by blast
  then show "distinct (map item_id (items req))"
    unfolding transaction_accepted_def by (blast intro: distinct_item_ids)
  from acc show "list_all (\<lambda>it. parts db (item_id it) \<noteq> None) (items req)"
    by (simp add: transaction_accepted_def)
qed


lemma critical_alerts_for_cong:
  "parts d = parts d' \<Longrightarrow> staff d = staff d' \<Longrightarrow> critical_alerts_for d = critical_alerts_for d'"
  by (rule ext) (simp add: critical_alerts_for_def managers_def split: option.splits)

lemma below_cong: "parts d = parts d' \<Longrightarrow> below d = below d'"
  by (intro ext) (simp add: below_def)

lemma high_value_threshold_cong:
  "settings d = settings d' \<Longrightarrow> high_value_threshold env d = high_value_threshold env d'"
  by (simp add: high_value_threshold_def lookup_setting_def)

lemma critical_alerts_title:
  "n \<in> set (critical_alerts_for d pid) \<Longrightarrow> title n = ''Critical Stock Alert''"
  by (auto simp: critical_alerts_for_def critical_stock_alert_def split: option.splits if_splits)

lemma critical_alerts_category:
  "n \<in> set (critical_alerts_for d pid) \<Longrightarrow> category n = ''inventory''"
  by (auto simp: critical_alerts_for_def critical_stock_alert_def split: option.splits if_splits)

lemma process_sale_success:
  assumes "process_sale env cu req db = (db', Ok200 sid rcp)"
  obtains db1 s low thr ms a where
    "low_stock_threshold env db = Some thr"
    "sell_items sid thr (items req) (db\<lparr>sales := sales db @ [s]\<rparr>) [] = (db1, low)"
    "sale_id s = sid" "total_amount s = req_total req"
    "distinct (map item_id (items req))"
    "list_all (\<lambda>it. parts db (item_id it) \<noteq> None) (items req)"
    "db' = (add_notifications db1
              (concat (map (critical_alerts_for db1) low) @
               completion_notice env cu s (req_total req) #
               (if req_total req \<ge> high_value_threshold env db1
                then map (high_value_alert env cu (req_total req)) (managers db1 @ admins db1) else []) @
               ms))\<lparr>audit_logs := audit_logs db1 @ [a]\<rparr>"
    "\<forall>n \<in> set ms. title n = ''Sales Milestone Reached'' \<and> n_type n = ''info''"
proof -
  from process_sale_Ok [OF assms] obtain db1 s low where
    st: "sale_transaction env cu req db = Inr (db1, s, low)" and
    pc: "post_commit env cu req s low db1 = (db', None)" and sid: "sid = sale_id s" by blast
  from committed_state(1) [OF st] obtain thr where
    thr: "low_stock_threshold env db = Some thr" and
    run: "sell_items (sale_id s) thr (items req) (db\<lparr>sales := sales db @ [s]\<rparr>) [] = (db1, low)"
    by blast
  from post_commit_ok [OF pc] obtain ms a where
    "db' = (add_notifications db1
              (concat (map (critical_alerts_for db1) low) @
               completion_notice env cu s (req_total req) #
               (if req_total req \<ge> high_value_threshold env db1
                then map (high_value_alert env cu (req_total req)) (managers db1 @ admins db1) else []) @
               ms))\<lparr>audit_logs := audit_logs db1 @ [a]\<rparr>"
    "\<forall>n \<in> set ms. title n = ''Sales Milestone Reached'' \<and> n_type n = ''info''" by blast
  with thr run sid committed_state(2,3,4) [OF st] that show thesis by blast
qed


section \<open>Evaluation of the examples\<close>

lemmas eval_defs = process_sale_def sale_transaction_def post_commit_def flush_sale_def db_commit_def
  sale_details_constraints_def sd_key_def next_sale_id_def lookup_setting_def low_stock_threshold_def
  create_notification_def create_notification_for_role_def log_audit_def
  sale_completed_notification_def high_value_threshold_def high_value_alerts_def
  sales_milestone_alerts_def generate_receipt_number_def strftime_Ymd_def zero_pad_def
  str_nat.simps str_int_def uuid_prefix hex32_def upper_char_def hex_char_def digit_char_def
  upt_rec peso_def Let_def

lemmas example_defs = example_env_def example_db_def example_user_def example_request_def
  mismatched_request_def empty_cart_request_def negative_quantity_request_def
  duplicate_item_request_def unknown_item_request_def high_value_request_def
  brake_pad_request_def threshold_two_db_def commit_failure_env_def completion_failure_env_def

lemma pair_of_snd: "snd x = b \<Longrightarrow> x = (fst x, b)"
  by auto

lemma example_sale_response:
  "snd (process_sale example_env example_user example_request example_db) =
     Ok200 1 ''RCP-20261106-3F2A9C1E''"
  by (simp add: eval_defs example_defs)

lemma high_value_sale_response:
  "snd (process_sale example_env example_user high_value_request example_db) =
     Ok200 1 ''RCP-20261106-3F2A9C1E''"
  by (simp add: eval_defs example_defs)

lemma high_value_sale_parts:
  "parts (fst (process_sale example_env example_user high_value_request example_db)) 1 =
     Some \<lparr>part_name = ''Spark Plug'', stock_quantity = 1\<rparr>"
  by (simp add: eval_defs example_defs)

lemma high_value_sale_staff:
  "staff (fst (process_sale example_env example_user high_value_request example_db)) =
     staff example_db"
  by (simp add: eval_defs example_defs)

lemma example_managers:
  "managers example_db = [\<lparr>user_id = 2, user_name = ''Ben'', role = ''manager''\<rparr>]"
  by (simp add: managers_def example_db_def)

lemma example_admins:
  "admins example_db = [\<lparr>user_id = 1, user_name = ''Ana'', role = ''admin''\<rparr>]"
  by (simp add: admins_def example_db_def)

lemma example_accepted:
  "transaction_accepted example_env example_request example_db"
  by (simp add: transaction_accepted_def eval_defs example_defs)

section \<open>The claims\<close>

text \<open>
  C1. After a successful \<^verbatim>\<open>process_sale\<close>, every part referenced by a cart line
  exists, and its stock is the maximum of zero and its previous stock minus the
  quantity of the line; in particular it is not negative.
\<close>

theorem sale_stock_update:
  assumes "process_sale env cu req db = (db', Ok200 sid rcp)" and "it \<in> set (items req)"
  shows "\<exists>p p'. parts db (item_id it) = Some p \<and> parts db' (item_id it) = Some p' \<and>
           stock_quantity p' = max 0 (stock_quantity p - quantity it) \<and> 0 \<le> stock_quantity p'"
proof -
  from assms(1) obtain db1 s low thr ms a where
    run: "sell_items sid thr (items req) (db\<lparr>sales := sales db @ [s]\<rparr>) [] = (db1, low)" and
    dist: "distinct (map item_id (items req))" and
    ex: "list_all (\<lambda>it. parts db (item_id it) \<noteq> None) (items req)" and
    db': "db' = (add_notifications db1
              (concat (map (critical_alerts_for db1) low) @
               completion_notice env cu s (req_total req) #
               (if req_total req \<ge> high_value_threshold env db1
                then map (high_value_alert env cu (req_total req)) (managers db1 @ admins db1) else []) @
               ms))\<lparr>audit_logs := audit_logs db1 @ [a]\<rparr>"
    by (rule process_sale_success)
  from ex assms(2) obtain p where p: "parts db (item_id it) = Some p" by (auto simp: list_all_iff)
  then have "parts (db\<lparr>sales := sales db @ [s]\<rparr>) (item_id it) = Some p" by simp
  from sell_items_stock [OF run dist assms(2) this]
  have "parts db1 (item_id it) = Some (p\<lparr>stock_quantity := max 0 (stock_quantity p - quantity it)\<rparr>)" .
  moreover have "parts db' = parts db1" unfolding db' by simp
  ultimately show ?thesis using p by simp
qed

theorem sale_stock_update_witness:
  "snd (process_sale example_env example_user example_request example_db) =
     Ok200 1 ''RCP-20261106-3F2A9C1E'' \<and>
   map_option stock_quantity (parts example_db 1) = Some 5 \<and>
   map_option stock_quantity
     (parts (fst (process_sale example_env example_user example_request example_db)) 1) = Some 3"
proof -
  let ?r = "process_sale example_env example_user example_request example_db"
  have ok: "snd ?r = Ok200 1 ''RCP-20261106-3F2A9C1E''" by (rule example_sale_response)
  then have run: "?r = (fst ?r, Ok200 1 ''RCP-20261106-3F2A9C1E'')" by (rule pair_of_snd)
  have mem: "\<lparr>item_id = 1, quantity = 2, price = 100\<rparr> \<in> set (items example_request)"
    by (simp add: example_request_def)
  from sale_stock_update [OF run mem] obtain p p' where
    "parts example_db 1 = Some p" "parts (fst ?r) 1 = Some p'"
    "stock_quantity p' = max 0 (stock_quantity p - 2)" by auto
  moreover have "parts example_db 1 = Some \<lparr>part_name = ''Spark Plug'', stock_quantity = 5\<rparr>"
    by (simp add: example_db_def)
  ultimately show ?thesis using ok by auto
qed

text \<open>
  C2. When the commit of the sale fails, \<^verbatim>\<open>process_sale\<close> returns the database as
  it was (no sale, no detail rows, no stock change) and answers with status 500.
\<close>

theorem commit_failure_leaves_state:
  "commit_fails env \<Longrightarrow>
   fst (process_sale env cu req db) = db \<and> status_code (snd (process_sale env cu req db)) = 500"
  using process_sale_rejected [of env req db cu] by (simp add: transaction_accepted_def)

theorem commit_failure_leaves_state_witness:
  "commit_fails commit_failure_env \<and>
   fst (process_sale commit_failure_env example_user example_request example_db) = example_db \<and>
   status_code (snd (process_sale commit_failure_env example_user example_request example_db)) = 500"
  using commit_failure_leaves_state [of commit_failure_env example_user example_request example_db]
  by (simp add: commit_failure_env_def)

text \<open>
  C3, as stated, fails: an empty cart and a cart with a negative quantity are both
  processed with status 200. The empty cart creates a sale without detail rows;
  the negative quantity raises the stock of the part from 5 to 8.
\<close>

theorem unvalidated_carts_accepted:
  "snd (process_sale example_env example_user empty_cart_request example_db) =
     Ok200 1 ''RCP-20261106-3F2A9C1E'' \<and>
   map sale_id (sales (fst (process_sale example_env example_user empty_cart_request example_db))) = [1] \<and>
   sale_details (fst (process_sale example_env example_user empty_cart_request example_db)) = [] \<and>
   snd (process_sale example_env example_user negative_quantity_request example_db) =
     Ok200 1 ''RCP-20261106-3F2A9C1E'' \<and>
   map_option stock_quantity
     (parts (fst (process_sale example_env example_user negative_quantity_request example_db)) 1) = Some 8"
  by (simp add: eval_defs example_defs)

text \<open>
  C3, amended. The cart is not validated: an empty cart is accepted whenever the
  request is accepted with any cart, and whether a request is accepted does not
  depend on the quantities of its lines. A line whose item does not resolve to a
  part is rejected by the commit: the database is returned as it was and the
  status is 500.
\<close>

theorem cart_not_validated:
  "((\<exists>it \<in> set (items req). parts db (item_id it) = None) \<longrightarrow>
      fst (process_sale env cu req db) = db \<and>
      status_code (snd (process_sale env cu req db)) = 500) \<and>
   ((\<exists>x. sale_transaction env cu req db = Inr x) \<longrightarrow>
      (\<exists>x. sale_transaction env cu (req\<lparr>items := []\<rparr>) db = Inr x)) \<and>
   (\<forall>f. (\<exists>x. sale_transaction env cu
              (req\<lparr>items := map (\<lambda>it. it\<lparr>quantity := f it\<rparr>) (items req)\<rparr>) db = Inr x) =
         (\<exists>x. sale_transaction env cu req db = Inr x))"
proof (intro conjI impI allI)
  assume "\<exists>it \<in> set (items req). parts db (item_id it) = None"
  then have "\<not> transaction_accepted env req db"
    by (auto simp: transaction_accepted_def list_all_iff)
  then have r: "fst (process_sale env cu req db) = db \<and>
      status_code (snd (process_sale env cu req db)) = 500"
    by (rule process_sale_rejected)
  from r show "fst (process_sale env cu req db) = db" ..
  from r show "status_code (snd (process_sale env cu req db)) = 500" ..
next
  assume "\<exists>x. sale_transaction env cu req db = Inr x"
  then have "transaction_accepted env req db" by (simp only: sale_transaction_accepted)
  then have "transaction_accepted env (req\<lparr>items := []\<rparr>) db"
    by (simp add: transaction_accepted_def)
  then show "\<exists>x. sale_transaction env cu (req\<lparr>items := []\<rparr>) db = Inr x"
    by (simp only: sale_transaction_accepted)
next
  fix f
  have "transaction_accepted env (req\<lparr>items := map (\<lambda>it. it\<lparr>quantity := f it\<rparr>) (items req)\<rparr>) db =
        transaction_accepted env req db"
    by (simp add: transaction_accepted_def list_all_iff comp_def)
  then show "(\<exists>x. sale_transaction env cu
              (req\<lparr>items := map (\<lambda>it. it\<lparr>quantity := f it\<rparr>) (items req)\<rparr>) db = Inr x) =
         (\<exists>x. sale_transaction env cu req db = Inr x)"
    by (simp only: sale_transaction_accepted)
qed

theorem cart_not_validated_witness:
  "map item_id (items unknown_item_request) = [9] \<and> parts example_db 9 = None \<and>
   fst (process_sale example_env example_user unknown_item_request example_db) = example_db \<and>
   status_code (snd (process_sale example_env example_user unknown_item_request example_db)) = 500 \<and>
   (\<exists>x. sale_transaction example_env example_user example_request example_db = Inr x) \<and>
   (\<exists>x. sale_transaction example_env example_user (example_request\<lparr>items := []\<rparr>) example_db = Inr x)"
proof -
  have u: "\<exists>it \<in> set (items unknown_item_request). parts example_db (item_id it) = None"
    by (simp add: unknown_item_request_def example_request_def example_db_def)
  have a: "\<exists>x. sale_transaction example_env example_user example_request example_db = Inr x"
    using example_accepted by (simp only: sale_transaction_accepted)
  have i: "map item_id (items unknown_item_request) = [9]" "parts example_db 9 = None"
    by (simp_all add: unknown_item_request_def example_request_def example_db_def)
  from u a cart_not_validated [of unknown_item_request example_db example_env example_user]
    cart_not_validated [of example_request example_db example_env example_user]
  have "fst (process_sale example_env example_user unknown_item_request example_db) = example_db \<and>
   status_code (snd (process_sale example_env example_user unknown_item_request example_db)) = 500 \<and>
   (\<exists>x. sale_transaction example_env example_user example_request example_db = Inr x) \<and>
   (\<exists>x. sale_transaction example_env example_user (example_request\<lparr>items := []\<rparr>) example_db = Inr x)"
    by blast
  with i show ?thesis by simp
qed

text \<open>
  C4. The claim does not hold of the code: only the milestone step has an
  exception handler. When the write of the completion notice fails after the
  commit of a sale of 6000, the sale stays committed and the stock stays
  decremented, but the caller receives status 500, the high-value alerts are
  never written and no audit entry is recorded.
\<close>

theorem completion_failure_reported_as_error:
  "snd (process_sale completion_failure_env example_user high_value_request example_db) =
     Error500 OperationalError \<and>
   map sale_id (sales (fst (process_sale completion_failure_env example_user high_value_request example_db))) = [1] \<and>
   map_option stock_quantity
     (parts (fst (process_sale completion_failure_env example_user high_value_request example_db)) 1) = Some 1 \<and>
   map title (notifications (fst (process_sale completion_failure_env example_user high_value_request example_db))) =
     [''Critical Stock Alert''] \<and>
   audit_logs (fst (process_sale completion_failure_env example_user high_value_request example_db)) = []"
  by (simp add: eval_defs example_defs)

text \<open>
  C5, as stated, fails: with a configured low-stock threshold of 2, a sale that
  leaves two Brake Pads succeeds, there is a manager, and the only notification
  written is the completion notice: no critical-stock warning.
\<close>

theorem no_alert_at_threshold_two:
  "snd (process_sale example_env example_user brake_pad_request threshold_two_db) =
     Ok200 1 ''RCP-20261106-3F2A9C1E'' \<and>
   map_option stock_quantity
     (parts (fst (process_sale example_env example_user brake_pad_request threshold_two_db)) 2) = Some 2 \<and>
   map user_id (managers threshold_two_db) = [2] \<and>
   map title
     (notifications (fst (process_sale example_env example_user brake_pad_request threshold_two_db))) =
     [''Sale Completed'']"
  by (simp add: eval_defs example_defs managers_def)

text \<open>
  C5, amended. After a successful sale the critical-stock warnings written are
  exactly these: for every cart item whose stock after the sale is at most 2 and
  below the configured low-stock threshold (5 when none is stored), one warning
  per manager, naming the part and its remaining quantity; for the other cart
  items, none. The cart items of a successful sale are pairwise distinct.
\<close>

theorem critical_stock_notifications:
  assumes "process_sale env cu req db = (db', Ok200 sid rcp)"
  shows "\<exists>thr. low_stock_threshold env db = Some thr \<and>
     distinct (map item_id (items req)) \<and>
     filter (\<lambda>n. title n = ''Critical Stock Alert'') (new_notifications db db') =
       concat (map (critical_alerts_for db') (filter (below db' thr) (map item_id (items req))))"
proof -
  from assms(1) obtain db1 s low thr ms a where
    thr: "low_stock_threshold env db = Some thr" and
    run: "sell_items sid thr (items req) (db\<lparr>sales := sales db @ [s]\<rparr>) [] = (db1, low)" and
    dist: "distinct (map item_id (items req))" and
    db': "db' = (add_notifications db1
              (concat (map (critical_alerts_for db1) low) @
               completion_notice env cu s (req_total req) #
               (if req_total req \<ge> high_value_threshold env db1
                then map (high_value_alert env cu (req_total req)) (managers db1 @ admins db1) else []) @
               ms))\<lparr>audit_logs := audit_logs db1 @ [a]\<rparr>" and
    ms: "\<forall>n \<in> set ms. title n = ''Sales Milestone Reached'' \<and> n_type n = ''info''"
    by (rule process_sale_success)
  let ?P = "\<lambda>n. title n = ''Critical Stock Alert''"
  let ?crit = "concat (map (critical_alerts_for db1) low)"
  let ?hv = "if req_total req \<ge> high_value_threshold env db1
                then map (high_value_alert env cu (req_total req)) (managers db1 @ admins db1) else []"
  have n1: "notifications db1 = notifications db"
    using sell_items_notifications [OF run] by simp
  have new: "new_notifications db db' = ?crit @ [completion_notice env cu s (req_total req)] @ ?hv @ ms"
    unfolding new_notifications_def db' by (simp add: n1)
  have f1: "filter ?P ?crit = ?crit"
    by (rule filter_True) (auto dest: critical_alerts_title)
  have f2: "filter ?P [completion_notice env cu s (req_total req)] = []"
    by (simp add: completion_notice_def)
  have f3: "filter ?P ?hv = []"
    by (rule filter_False) (auto simp: high_value_alert_def)
  have f4: "filter ?P ms = []"
    by (rule filter_False) (use ms in auto)
  have "filter ?P (new_notifications db db') = ?crit"
    unfolding new filter_append f1 f2 f3 f4 by simp
  moreover have "low = filter (below db1 thr) (map item_id (items req))"
    using sell_items_low [OF run dist] by simp
  moreover have "critical_alerts_for db' = critical_alerts_for db1"
    by (rule critical_alerts_for_cong) (simp_all add: db')
  moreover have "below db' = below db1"
    by (rule below_cong) (simp add: db')
  ultimately show ?thesis using thr dist by simp
qed

theorem critical_stock_notifications_witness:
  "snd (process_sale example_env example_user high_value_request example_db) =
     Ok200 1 ''RCP-20261106-3F2A9C1E'' \<and>
   filter (\<lambda>n. title n = ''Critical Stock Alert'')
     (new_notifications example_db
        (fst (process_sale example_env example_user high_value_request example_db))) =
     [critical_stock_alert \<lparr>part_name = ''Spark Plug'', stock_quantity = 1\<rparr>
        \<lparr>user_id = 2, user_name = ''Ben'', role = ''manager''\<rparr>]"
proof -
  let ?r = "process_sale example_env example_user high_value_request example_db"
  have ok: "snd ?r = Ok200 1 ''RCP-20261106-3F2A9C1E''" by (rule high_value_sale_response)
  then have run: "?r = (fst ?r, Ok200 1 ''RCP-20261106-3F2A9C1E'')" by (rule pair_of_snd)
  have t: "low_stock_threshold example_env example_db = Some 5"
    by (simp add: low_stock_threshold_def lookup_setting_def example_db_def)
  have i: "map item_id (items high_value_request) = [1]"
    by (simp add: high_value_request_def example_request_def)
  have b: "below (fst ?r) 5 1" by (simp add: below_def high_value_sale_parts)
  have m: "managers (fst ?r) = managers example_db"
    by (simp add: managers_def high_value_sale_staff)
  have c: "critical_alerts_for (fst ?r) 1 =
      [critical_stock_alert \<lparr>part_name = ''Spark Plug'', stock_quantity = 1\<rparr>
         \<lparr>user_id = 2, user_name = ''Ben'', role = ''manager''\<rparr>]"
    by (simp add: critical_alerts_for_def high_value_sale_parts m example_managers)
  from critical_stock_notifications [OF run] t i b c ok show ?thesis by simp
qed

text \<open>
  C6. After a successful sale, the warnings of category sales written are exactly
  these: when the total supplied by the caller is at least the configured
  high-value threshold, one per manager and one per admin, naming the amount and
  the staff member; when it is below, none. The threshold is 5000 when no value
  is stored.
\<close>

theorem high_value_notifications:
  assumes "process_sale env cu req db = (db', Ok200 sid rcp)"
  shows "filter (\<lambda>n. n_type n = ''warning'' \<and> category n = ''sales'') (new_notifications db db') =
     (if req_total req \<ge> high_value_threshold env db
      then map (high_value_alert env cu (req_total req)) (managers db @ admins db) else []) \<and>
     (lookup_setting db ''sales'' ''high_value_sale_threshold'' = None \<longrightarrow>
        high_value_threshold env db = 5000)"
proof -
  from assms(1) obtain db1 s low thr ms a where
    run: "sell_items sid thr (items req) (db\<lparr>sales := sales db @ [s]\<rparr>) [] = (db1, low)" and
    db': "db' = (add_notifications db1
              (concat (map (critical_alerts_for db1) low) @
               completion_notice env cu s (req_total req) #
               (if req_total req \<ge> high_value_threshold env db1
                then map (high_value_alert env cu (req_total req)) (managers db1 @ admins db1) else []) @
               ms))\<lparr>audit_logs := audit_logs db1 @ [a]\<rparr>" and
    ms: "\<forall>n \<in> set ms. title n = ''Sales Milestone Reached'' \<and> n_type n = ''info''"
    by (rule process_sale_success)
  let ?P = "\<lambda>n. n_type n = ''warning'' \<and> category n = ''sales''"
  let ?crit = "concat (map (critical_alerts_for db1) low)"
  let ?hv = "if req_total req \<ge> high_value_threshold env db1
                then map (high_value_alert env cu (req_total req)) (managers db1 @ admins db1) else []"
  have n1: "notifications db1 = notifications db"
    using sell_items_notifications [OF run] by simp
  have st: "staff db1 = staff db" using sell_items_staff [OF run] by simp
  have se: "settings db1 = settings db" using sell_items_settings [OF run] by simp
  have new: "new_notifications db db' = ?crit @ [completion_notice env cu s (req_total req)] @ ?hv @ ms"
    unfolding new_notifications_def db' by (simp add: n1)
  have f1: "filter ?P ?crit = []"
    by (rule filter_False) (auto dest: critical_alerts_category)
  have f2: "filter ?P [completion_notice env cu s (req_total req)] = []"
    by (simp add: completion_notice_def)
  have f3: "filter ?P ?hv = ?hv"
    by (rule filter_True) (auto simp: high_value_alert_def)
  have f4: "filter ?P ms = []"
    by (rule filter_False) (use ms in auto)
  have "filter ?P (new_notifications db db') = ?hv"
    unfolding new filter_append f1 f2 f3 f4 by simp
  moreover have "high_value_threshold env db1 = high_value_threshold env db"
    by (rule high_value_threshold_cong) (rule se)
  moreover have "managers db1 = managers db" "admins db1 = admins db"
    by (simp_all add: managers_def admins_def st)
  ultimately show ?thesis by (simp add: high_value_threshold_def)
qed

theorem high_value_notifications_witness:
  "snd (process_sale example_env example_user high_value_request example_db) =
     Ok200 1 ''RCP-20261106-3F2A9C1E'' \<and>
   lookup_setting example_db ''sales'' ''high_value_sale_threshold'' = None \<and>
   high_value_threshold example_env example_db = 5000 \<and>
   filter (\<lambda>n. n_type n = ''warning'' \<and> category n = ''sales'')
     (new_notifications example_db
        (fst (process_sale example_env example_user high_value_request example_db))) =
     [high_value_alert example_env example_user 6000 \<lparr>user_id = 2, user_name = ''Ben'', role = ''manager''\<rparr>,
      high_value_alert example_env example_user 6000 \<lparr>user_id = 1, user_name = ''Ana'', role = ''admin''\<rparr>]"
proof -
  let ?r = "process_sale example_env example_user high_value_request example_db"
  have ok: "snd ?r = Ok200 1 ''RCP-20261106-3F2A9C1E''" by (rule high_value_sale_response)
  then have run: "?r = (fst ?r, Ok200 1 ''RCP-20261106-3F2A9C1E'')" by (rule pair_of_snd)
  have l: "lookup_setting example_db ''sales'' ''high_value_sale_threshold'' = None"
    by (simp add: lookup_setting_def example_db_def)
  have t: "req_total high_value_request = 6000"
    by (simp add: high_value_request_def)
  from high_value_notifications [OF run] l t ok example_managers example_admins
  show ?thesis by simp
qed

text \<open>
  C7. The sale row of a successful \<^verbatim>\<open>process_sale\<close> carries the total supplied
  by the caller, and whether the transaction of a request commits does not
  depend on that total: it is never compared with the sum of the cart lines.
\<close>

theorem total_persisted_verbatim:
  "(process_sale env cu req db = (db', Ok200 sid rcp) \<longrightarrow>
      (\<exists>s. sales db' = sales db @ [s] \<and> sale_id s = sid \<and> total_amount s = req_total req)) \<and>
   (\<forall>t. (\<exists>x. sale_transaction env cu (req\<lparr>req_total := t\<rparr>) db = Inr x) =
         (\<exists>x. sale_transaction env cu req db = Inr x))"
proof (intro conjI impI allI)
  assume ok: "process_sale env cu req db = (db', Ok200 sid rcp)"
  from ok obtain db1 s low thr ms a where
    run: "sell_items sid thr (items req) (db\<lparr>sales := sales db @ [s]\<rparr>) [] = (db1, low)" and
    s: "sale_id s = sid" "total_amount s = req_total req" and
    db': "db' = (add_notifications db1
              (concat (map (critical_alerts_for db1) low) @
               completion_notice env cu s (req_total req) #
               (if req_total req \<ge> high_value_threshold env db1
                then map (high_value_alert env cu (req_total req)) (managers db1 @ admins db1) else []) @
               ms))\<lparr>audit_logs := audit_logs db1 @ [a]\<rparr>"
    by (rule process_sale_success)
  have "sales db' = sales db1" unfolding db' by simp
  also have "\<dots> = sales db @ [s]" using sell_items_sales [OF run] by simp
  finally show "\<exists>s. sales db' = sales db @ [s] \<and> sale_id s = sid \<and> total_amount s = req_total req"
    using s by blast
next
  fix t
  have "transaction_accepted env (req\<lparr>req_total := t\<rparr>) db = transaction_accepted env req db"
    by (simp add: transaction_accepted_def)
  then show "(\<exists>x. sale_transaction env cu (req\<lparr>req_total := t\<rparr>) db = Inr x) =
         (\<exists>x. sale_transaction env cu req db = Inr x)"
    by (simp only: sale_transaction_accepted)
qed

theorem total_persisted_verbatim_witness:
  "line_sum (items mismatched_request) = 200 \<and> req_total mismatched_request = 1 \<and>
   snd (process_sale example_env example_user mismatched_request example_db) =
     Ok200 1 ''RCP-20261106-3F2A9C1E'' \<and>
   map total_amount (sales (fst (process_sale example_env example_user mismatched_request example_db))) = [1]"
proof -
  let ?r = "process_sale example_env example_user mismatched_request example_db"
  have ok: "snd ?r = Ok200 1 ''RCP-20261106-3F2A9C1E''" by (simp add: eval_defs example_defs)
  then have run: "?r = (fst ?r, Ok200 1 ''RCP-20261106-3F2A9C1E'')" by (rule pair_of_snd)
  have l: "line_sum (items mismatched_request) = 200" "req_total mismatched_request = 1"
    by (simp_all add: line_sum_def mismatched_request_def example_request_def)
  have e: "sales example_db = []" by (simp add: example_db_def)
  from total_persisted_verbatim [of example_env example_user mismatched_request example_db "fst ?r" 1
      "''RCP-20261106-3F2A9C1E''"] run
  obtain s where "sales (fst ?r) = sales example_db @ [s]" "total_amount s = req_total mismatched_request"
    by blast
  with l e ok show ?thesis by simp
qed

text \<open>
  C8. Every receipt number the generator produces has the form
  \<^verbatim>\<open>RCP-<8 digits>-<8 characters of A-Z, 0-9>\<close>, for every date with a four-digit
  year and for every UUID.
\<close>

theorem receipt_number_format:
  assumes "1000 \<le> year now" "year now \<le> 9999" "1 \<le> month now" "month now \<le> 12"
    "1 \<le> day now" "day now \<le> 31"
  shows "matches_receipt_format (generate_receipt_number now u)"
proof -
  let ?d = "strftime_Ymd now"
  let ?s = "map upper_char (take 8 (uuid_str u))"
  have len: "length ?d = 8" using assms by (simp add: strftime_Ymd_length)
  have dig: "list_all is_digit ?d" by (rule strftime_Ymd_digits)
  have slen: "length ?s = 8" by (rule uuid_suffix_length)
  have sup: "list_all is_upper_alnum ?s" by (rule uuid_suffix_upper)
  have g: "generate_receipt_number now u = ''RCP-'' @ ?d @ ''-'' @ ?s"
    by (simp add: generate_receipt_number_def)
  have "length (''RCP-'' @ ?d @ ''-'' @ ?s) = 21" using len slen by simp
  moreover have "take 4 (''RCP-'' @ ?d @ ''-'' @ ?s) = ''RCP-''" by simp
  moreover have "take 8 (drop 4 (''RCP-'' @ ?d @ ''-'' @ ?s)) = ?d" using len by simp
  moreover have "take 1 (drop 12 (''RCP-'' @ ?d @ ''-'' @ ?s)) = ''-''" using len by simp
  moreover have "drop 13 (''RCP-'' @ ?d @ ''-'' @ ?s) = ?s" using len by simp
  ultimately show ?thesis unfolding g matches_receipt_format_def using dig sup by simp
qed

theorem receipt_number_format_witness:
  "1000 \<le> year \<lparr>year = 2026, month = 11, day = 6\<rparr> \<and>
   year \<lparr>year = 2026, month = 11, day = 6\<rparr> \<le> 9999 \<and>
   matches_receipt_format
     (generate_receipt_number \<lparr>year = 2026, month = 11, day = 6\<rparr> 0x3f2a9c1e0b7d4e5f8a6b1c2d3e4f5a6b)"
  using receipt_number_format
    [of "\<lparr>year = 2026, month = 11, day = 6\<rparr>" "0x3f2a9c1e0b7d4e5f8a6b1c2d3e4f5a6b"]
  by simp

text \<open>
  C9. A cart with two lines for the same item is rejected: the detail rows would
  share their primary key, so the commit fails; the database is returned as it
  was and the status is 500.
\<close>

theorem duplicate_item_rejected:
  "\<not> distinct (map item_id (items req)) \<Longrightarrow>
   fst (process_sale env cu req db) = db \<and> status_code (snd (process_sale env cu req db)) = 500"
proof -
  assume "\<not> distinct (map item_id (items req))"
  then have "\<not> transaction_accepted env req db"
    unfolding transaction_accepted_def by (blast intro: distinct_item_ids)
  then show ?thesis by (rule process_sale_rejected)
qed

theorem duplicate_item_rejected_witness:
  "\<not> distinct (map item_id (items duplicate_item_request)) \<and>
   fst (process_sale example_env example_user duplicate_item_request example_db) = example_db \<and>
   status_code (snd (process_sale example_env example_user duplicate_item_request example_db)) = 500"
proof -
  have d: "\<not> distinct (map item_id (items duplicate_item_request))"
    by (simp add: duplicate_item_request_def example_request_def)
  from duplicate_item_rejected [OF d, of example_env example_user example_db] d
  show ?thesis by simp
qed

text \<open>
  C10. A successful \<^verbatim>\<open>process_sale\<close> leaves every part that no cart line
  references as it was, keeps the name of every part, and only appends to the
  tables of sales, sale details, notifications and audit entries: one sale, the
  detail rows, some notifications and one audit entry. Staff, customers and
  settings are unchanged.
\<close>

theorem sale_frame:
  assumes "process_sale env cu req db = (db', Ok200 sid rcp)"
  shows "(\<forall>pid. pid \<notin> item_id ` set (items req) \<longrightarrow> parts db' pid = parts db pid) \<and>
         (\<forall>pid p. parts db pid = Some p \<longrightarrow>
            (\<exists>p'. parts db' pid = Some p' \<and> part_name p' = part_name p)) \<and>
         (\<exists>s. sales db' = sales db @ [s]) \<and>
         (\<exists>ds. sale_details db' = sale_details db @ ds) \<and>
         (\<exists>ns. notifications db' = notifications db @ ns) \<and>
         (\<exists>a. audit_logs db' = audit_logs db @ [a]) \<and>
         staff db' = staff db \<and> customers db' = customers db \<and> settings db' = settings db"
proof -
  from assms obtain db1 s low thr ms a where
    run: "sell_items sid thr (items req) (db\<lparr>sales := sales db @ [s]\<rparr>) [] = (db1, low)" and
    db': "db' = (add_notifications db1
              (concat (map (critical_alerts_for db1) low) @
               completion_notice env cu s (req_total req) #
               (if req_total req \<ge> high_value_threshold env db1
                then map (high_value_alert env cu (req_total req)) (managers db1 @ admins db1) else []) @
               ms))\<lparr>audit_logs := audit_logs db1 @ [a]\<rparr>"
    by (rule process_sale_success)
  have p: "parts db' = parts db1" unfolding db' by simp
  have "\<forall>pid. pid \<notin> item_id ` set (items req) \<longrightarrow> parts db' pid = parts db pid"
    using sell_items_other_parts [OF run] p by simp
  moreover have "\<forall>pid p. parts db pid = Some p \<longrightarrow>
      (\<exists>p'. parts db' pid = Some p' \<and> part_name p' = part_name p)"
    using sell_items_name [OF run] p by simp
  moreover have "sales db' = sales db @ [s]"
    unfolding db' using sell_items_sales [OF run] by simp
  moreover have "sale_details db' = sale_details db @ map (detail_of sid) (items req)"
    unfolding db' using sell_items_details [OF run] by simp
  moreover have "\<exists>ns. notifications db' = notifications db @ ns"
    unfolding db' using sell_items_notifications [OF run] by simp
  moreover have "audit_logs db' = audit_logs db @ [a]"
    unfolding db' using sell_items_audit_logs [OF run] by simp
  moreover have "staff db' = staff db"
    unfolding db' using sell_items_staff [OF run] by simp
  moreover have "customers db' = customers db"
    unfolding db' using sell_items_customers [OF run] by simp
  moreover have "settings db' = settings db"
    unfolding db' using sell_items_settings [OF run] by simp
  ultimately show ?thesis by blast
qed

theorem sale_frame_witness:
  "snd (process_sale example_env example_user example_request example_db) =
     Ok200 1 ''RCP-20261106-3F2A9C1E'' \<and>
   2 \<notin> item_id ` set (items example_request) \<and>
   parts (fst (process_sale example_env example_user example_request example_db)) 2 =
     Some \<lparr>part_name = ''Brake Pad'', stock_quantity = 3\<rparr> \<and>
   staff (fst (process_sale example_env example_user example_request example_db)) = staff example_db \<and>
   length (sales (fst (process_sale example_env example_user example_request example_db))) = 1 \<and>
   length (audit_logs (fst (process_sale example_env example_user example_request example_db))) = 1"
proof -
  let ?r = "process_sale example_env example_user example_request example_db"
  have ok: "snd ?r = Ok200 1 ''RCP-20261106-3F2A9C1E''" by (rule example_sale_response)
  then have run: "?r = (fst ?r, Ok200 1 ''RCP-20261106-3F2A9C1E'')" by (rule pair_of_snd)
  have n: "2 \<notin> item_id ` set (items example_request)" by (simp add: example_request_def)
  have e: "parts example_db 2 = Some \<lparr>part_name = ''Brake Pad'', stock_quantity = 3\<rparr>"
    "sales example_db = []" "audit_logs example_db = []"
    by (simp_all add: example_db_def)
  from sale_frame [OF run] have
    "\<forall>pid. pid \<notin> item_id ` set (items example_request) \<longrightarrow> parts (fst ?r) pid = parts example_db pid"
    "\<exists>s. sales (fst ?r) = sales example_db @ [s]"
    "\<exists>a. audit_logs (fst ?r) = audit_logs example_db @ [a]"
    "staff (fst ?r) = staff example_db"
    by blast+
  with n e ok show ?thesis by auto
qed



end
